theory Spec2Isabelle
  imports Main
begin

section \<open>The award harvester: get_data.py and get_more_data.py\<close>

text \<open>
  The repository holds two scripts with the same structure. \<^verbatim>\<open>get_data.py\<close> is the
  full backfill (\<^verbatim>\<open>RESET = True\<close>, \<^verbatim>\<open>YEAR_END = 2024\<close>); \<^verbatim>\<open>get_more_data.py\<close> is
  the incremental update (\<^verbatim>\<open>RESET = False\<close>, \<^verbatim>\<open>YEAR_END\<close> read from the clock, rows
  filtered by identifier). Functions whose text is the same in both files are embedded
  once and take the script as an argument; \<^verbatim>\<open>append_chunk\<close> differs and is embedded
  twice.
\<close>

subsection \<open>Values and exceptions\<close>

text \<open>
  What \<^verbatim>\<open>json.load\<close> and \<^verbatim>\<open>r.json()\<close> return. Numbers are the integers the scripts
  write and do arithmetic on; JSON numbers with a fraction are not part of the model.
  An object is the list of its items in insertion order.
\<close>

datatype json =
    JNull
  | JBool bool
  | JInt int
  | JStr string
  | JArr "json list"
  | JObj "(string \<times> json) list"

type_synonym dict = "(string \<times> json) list"

text \<open>The exceptions the modelled statements raise.\<close>

datatype exn =
    JSONDecodeError
  | KeyError
  | TypeError
  | AttributeError
  | RequestException

text \<open>\<^verbatim>\<open>d.get(k, default)\<close> and \<^verbatim>\<open>d[k] = v\<close> on a dict.\<close>

definition dict_get :: "dict \<Rightarrow> string \<Rightarrow> json \<Rightarrow> json" where
  "dict_get d k dflt = (case map_of d k of None \<Rightarrow> dflt | Some v \<Rightarrow> v)"

fun dict_set :: "dict \<Rightarrow> string \<Rightarrow> json \<Rightarrow> dict" where
  "dict_set [] k v = [(k, v)]"
| "dict_set ((k', v') # d) k v =
     (if k' = k then (k, v) # d else (k', v') # dict_set d k v)"

text \<open>
  \<^verbatim>\<open>v > n\<close> and \<^verbatim>\<open>v < n\<close> for a JSON value \<^verbatim>\<open>v\<close> and an int \<^verbatim>\<open>n\<close>: Python compares
  an int or a bool (a subclass of int) and raises TypeError for None, str, list and dict.
\<close>

definition py_gt :: "json \<Rightarrow> int \<Rightarrow> exn + bool" where
  "py_gt v n =
     (case v of
        JInt i \<Rightarrow> Inr (i > n)
      | JBool b \<Rightarrow> Inr ((if b then 1 else 0) > n)
      | _ \<Rightarrow> Inl TypeError)"

definition py_lt :: "json \<Rightarrow> int \<Rightarrow> exn + bool" where
  "py_lt v n =
     (case v of
        JInt i \<Rightarrow> Inr (i < n)
      | JBool b \<Rightarrow> Inr ((if b then 1 else 0) < n)
      | _ \<Rightarrow> Inl TypeError)"

subsection \<open>Configuration constants\<close>

text \<open>
  \<^verbatim>\<open>GetMoreData cy\<close> is \<^verbatim>\<open>get_more_data.py\<close> started when
  \<^verbatim>\<open>datetime.datetime.now().year\<close> is \<^verbatim>\<open>cy\<close>.
\<close>

datatype script = GetData | GetMoreData int

definition RPP :: nat where
  "RPP = 25"

definition MAX_RETRIES :: nat where
  "MAX_RETRIES = 3"

definition YEAR_START :: int where
  "YEAR_START = 2019"

fun YEAR_END :: "script \<Rightarrow> int" where
  "YEAR_END GetData = 2024"
| "YEAR_END (GetMoreData cy) = cy"

fun RESET :: "script \<Rightarrow> bool" where
  "RESET GetData = True"
| "RESET (GetMoreData cy) = False"

subsection \<open>Files\<close>

text \<open>
  The checkpoint file holds text that \<^verbatim>\<open>json.load\<close> either parses or rejects. The
  output file is a list of lines: a header (column names) or one row per award. A file
  that does not exist is \<open>None\<close>.
\<close>

datatype content = Garbage | Json json

datatype scalar = SNull | SBool bool | SInt int | SStr string

type_synonym award = "(string \<times> scalar) list"

datatype csv_line = Header "string list" | Row award

record disk =
  checkpoint_file :: "content option"
  output_file :: "csv_line list option"

definition reset_files :: "script \<Rightarrow> disk \<Rightarrow> disk" where
  "reset_files sc d =
     (if RESET sc then \<lparr>checkpoint_file = None, output_file = None\<rparr> else d)"

subsection \<open>The progress tracker\<close>

text \<open>
  The literal returned when no checkpoint exists. \<^verbatim>\<open>get_data.py\<close> starts with
  \<^verbatim>\<open>written_header = False\<close>, \<^verbatim>\<open>get_more_data.py\<close> with
  \<^verbatim>\<open>os.path.exists(OUTPUT_FILE)\<close>.
\<close>

definition default_state :: "script \<Rightarrow> disk \<Rightarrow> dict" where
  "default_state sc d =
     [(''year'', JInt (YEAR_END sc)),
      (''offset'', JInt 1),
      (''written_header'',
         JBool (case sc of GetData \<Rightarrow> False | GetMoreData cy \<Rightarrow> output_file d \<noteq> None)),
      (''total_saved'', JInt 0)]"

text \<open>The two assignments of the clamping branch.\<close>

definition clamp_state :: "script \<Rightarrow> dict \<Rightarrow> dict" where
  "clamp_state sc state =
     dict_set (dict_set state ''year'' (JInt (YEAR_END sc))) ''offset'' (JInt 1)"

text \<open>
  \<^verbatim>\<open>load_checkpoint\<close>. There is no handler in it: a \<^verbatim>\<open>json.load\<close> failure, a parsed
  value that is not a dict (no \<^verbatim>\<open>get\<close> attribute), a year that cannot be compared
  with an int, and a dict without \<^verbatim>\<open>"year"\<close> (the \<^verbatim>\<open>or\<close> evaluates
  \<^verbatim>\<open>state["year"]\<close> when its left operand is false) all raise.
\<close>

definition load_checkpoint :: "script \<Rightarrow> disk \<Rightarrow> exn + dict" where
  "load_checkpoint sc d =
     (case checkpoint_file d of
        None \<Rightarrow> Inr (default_state sc d)
      | Some Garbage \<Rightarrow> Inl JSONDecodeError
      | Some (Json (JObj state)) \<Rightarrow>
          (case py_gt (dict_get state ''year'' (JInt (YEAR_END sc))) (YEAR_END sc) of
             Inl e \<Rightarrow> Inl e
           | Inr True \<Rightarrow> Inr (clamp_state sc state)
           | Inr False \<Rightarrow>
               (case map_of state ''year'' of
                  None \<Rightarrow> Inl KeyError
                | Some v \<Rightarrow>
                    (case py_lt v YEAR_START of
                       Inl e \<Rightarrow> Inl e
                     | Inr True \<Rightarrow> Inr (clamp_state sc state)
                     | Inr False \<Rightarrow> Inr state)))
      | Some (Json _) \<Rightarrow> Inl AttributeError)"

subsection \<open>The page fetcher\<close>

text \<open>\<^verbatim>\<open>str(n)\<close> for an int, as the f-strings and the query string render it.\<close>

fun digits :: "nat \<Rightarrow> string" where
  "digits n =
     (if n < 10 then [char_of (48 + n)]
      else digits (n div 10) @ [char_of (48 + n mod 10)])"

definition str_int :: "int \<Rightarrow> string" where
  "str_int i = (if i < 0 then CHR ''-'' # digits (nat (- i)) else digits (nat i))"

text \<open>\<^verbatim>\<open>sep.join(xs)\<close>.\<close>

fun join :: "string \<Rightarrow> string list \<Rightarrow> string" where
  "join sep [] = []"
| "join sep [x] = x"
| "join sep (x # x' # xs) = x @ sep @ join sep (x' # xs)"

text \<open>The list literal inside \<^verbatim>\<open>PRINT_FIELDS\<close>, the same in both scripts.\<close>

definition print_field_names :: "string list" where
  "print_field_names =
     [''agency'', ''awardeeCountryCode'', ''awardeeStateCode'', ''awardeeName'',
      ''startDate'', ''expDate'', ''date'', ''title'', ''abstractText'']"

definition PRINT_FIELDS :: string where
  "PRINT_FIELDS = join '','' print_field_names"

type_synonym params = "(string \<times> string) list"

definition params :: "int \<Rightarrow> int \<Rightarrow> params" where
  "params y offs =
     [(''rpp'', str_int (int RPP)),
      (''offset'', str_int offs),
      (''startDateStart'', ''01/01/'' @ str_int y),
      (''startDateEnd'', ''12/31/'' @ str_int y),
      (''agency'', ''NSF''),
      (''awardeeCountryCode'', ''US''),
      (''printFields'', PRINT_FIELDS)]"

text \<open>
  \<^verbatim>\<open>v.get(k, default)\<close> on a parsed value: only a dict has the attribute.
  \<^verbatim>\<open>response_award\<close> is the expression
  \<^verbatim>\<open>data.get("response", {}).get("award", [])\<close>.
\<close>

definition py_get :: "json \<Rightarrow> string \<Rightarrow> json \<Rightarrow> exn + json" where
  "py_get v k dflt = (case v of JObj d \<Rightarrow> Inr (dict_get d k dflt) | _ \<Rightarrow> Inl AttributeError)"

definition response_award :: "json \<Rightarrow> exn + json" where
  "response_award data =
     (case py_get data ''response'' (JObj []) of
        Inl e \<Rightarrow> Inl e
      | Inr resp \<Rightarrow> py_get resp ''award'' (JArr []))"

text \<open>
  The network is an oracle: \<open>http ps attempt\<close> is what \<^verbatim>\<open>requests.get\<close>,
  \<^verbatim>\<open>raise_for_status\<close> and \<^verbatim>\<open>r.json()\<close> give on the given attempt of a call, the parsed
  body or the exception raised. \<open>try_body\<close> is the whole \<^verbatim>\<open>try\<close> block.
\<close>

type_synonym http = "params \<Rightarrow> nat \<Rightarrow> exn + json"

definition try_body :: "http \<Rightarrow> params \<Rightarrow> nat \<Rightarrow> exn + json" where
  "try_body http ps attempt =
     (case http ps attempt of
        Inl e \<Rightarrow> Inl e
      | Inr data \<Rightarrow> response_award data)"

text \<open>
  What a call does besides returning: the requests it sends and the seconds it sleeps.
\<close>

datatype event = Attempt params | Sleep nat

text \<open>
  The \<^verbatim>\<open>for attempt in range(1, MAX_RETRIES + 1)\<close> loop over the remaining attempt
  numbers. \<^verbatim>\<open>except Exception\<close> catches every exception of the \<^verbatim>\<open>try\<close> block, so the
  function has no error result; after the loop it returns \<^verbatim>\<open>[]\<close>.
\<close>

fun fetch_attempts :: "http \<Rightarrow> params \<Rightarrow> nat list \<Rightarrow> json \<times> event list" where
  "fetch_attempts http ps [] = (JArr [], [])"
| "fetch_attempts http ps (attempt # rest) =
     (case try_body http ps attempt of
        Inr awards \<Rightarrow> (awards, [Attempt ps])
      | Inl e \<Rightarrow>
          (let (res, evs) = fetch_attempts http ps rest
           in (res, Attempt ps # Sleep (2 * attempt) # evs)))"

definition fetch_page :: "http \<Rightarrow> int \<Rightarrow> int \<Rightarrow> json \<times> event list" where
  "fetch_page http y offs = fetch_attempts http (params y offs) [1..<MAX_RETRIES + 1]"

fun sleeps :: "event list \<Rightarrow> nat list" where
  "sleeps [] = []"
| "sleeps (Sleep s # evs) = s # sleeps evs"
| "sleeps (Attempt ps # evs) = sleeps evs"

fun attempts :: "event list \<Rightarrow> params list" where
  "attempts [] = []"
| "attempts (Attempt ps # evs) = ps # attempts evs"
| "attempts (Sleep s # evs) = attempts evs"

subsection \<open>The row merger\<close>

text \<open>
  \<^verbatim>\<open>pd.DataFrame(awards)\<close> for a list of award objects: one row per object, the
  columns are the keys in order of first appearance, a key missing from a row is a NaN
  cell (\<open>map_of row k = None\<close>). \<^verbatim>\<open>df.empty\<close> holds when either axis has length 0.
\<close>

record dataframe =
  columns :: "string list"
  rows :: "award list"

definition DataFrame :: "award list \<Rightarrow> dataframe" where
  "DataFrame awards =
     \<lparr>columns = rev (remdups (rev (concat (map (map fst) awards)))), rows = awards\<rparr>"

definition df_empty :: "dataframe \<Rightarrow> bool" where
  "df_empty df = (rows df = [] \<or> columns df = [])"

text \<open>
  \<^verbatim>\<open>df.to_csv(OUTPUT_FILE, mode="a", index=False, header=h)\<close>: creates the file if
  needed and appends the header line, when asked, and the rows.
\<close>

definition to_csv :: "dataframe \<Rightarrow> bool \<Rightarrow> csv_line list option \<Rightarrow> csv_line list option" where
  "to_csv df header file =
     Some ((case file of None \<Rightarrow> [] | Some ls \<Rightarrow> ls)
           @ (if header then [Header (columns df)] else [])
           @ map Row (rows df))"

text \<open>The state dict of \<^verbatim>\<open>main\<close>, restricted to the four keys the scripts use.\<close>

record progress =
  year :: int
  offset :: int
  written_header :: bool
  total_saved :: int

text \<open>\<^verbatim>\<open>append_chunk\<close> of \<^verbatim>\<open>get_data.py\<close>.\<close>

definition append_chunk ::
  "dataframe \<Rightarrow> progress \<Rightarrow> csv_line list option \<Rightarrow> progress \<times> csv_line list option" where
  "append_chunk df st file =
     (let write_header = \<not> written_header st
      in (st\<lparr>written_header := True, total_saved := total_saved st + int (length (rows df))\<rparr>,
          to_csv df write_header file))"

text \<open>
  \<^verbatim>\<open>df["id"].isin(existing_ids)\<close> for one row. \<^verbatim>\<open>existing_ids\<close> is a set of str, so
  only a string cell can be a member; a number, a bool and a NaN cell are not.
\<close>

definition isin :: "string set \<Rightarrow> award \<Rightarrow> bool" where
  "isin ids row = (case map_of row ''id'' of Some (SStr s) \<Rightarrow> s \<in> ids | _ \<Rightarrow> False)"

text \<open>
  \<^verbatim>\<open>append_chunk\<close> of \<^verbatim>\<open>get_more_data.py\<close>; the result is the returned count, the
  state and the output file.
\<close>

definition append_chunk_more ::
  "dataframe \<Rightarrow> progress \<Rightarrow> string set \<Rightarrow> csv_line list option
     \<Rightarrow> nat \<times> progress \<times> csv_line list option" where
  "append_chunk_more df st existing_ids file =
     (let df1 = (if ''id'' \<in> set (columns df)
                 then df\<lparr>rows := filter (\<lambda>row. \<not> isin existing_ids row) (rows df)\<rparr>
                 else df)
      in if df_empty df1 then (0, st, file)
         else
           (let write_header = \<not> written_header st
            in (length (rows df1),
                st\<lparr>written_header := True,
                   total_saved := total_saved st + int (length (rows df1))\<rparr>,
                to_csv df1 write_header file)))"

text \<open>
  \<^verbatim>\<open>load_existing_ids\<close>. No file gives the empty set. \<^verbatim>\<open>read_csv\<close> with
  \<^verbatim>\<open>usecols=["id"]\<close> raises on an empty file and on a first line without an \<^verbatim>\<open>id\<close>
  column, and the handler returns the empty set. Otherwise the strings that pandas reads
  back from the column are a parameter, \<open>read_ids\<close>.
\<close>

definition load_existing_ids ::
  "(csv_line list \<Rightarrow> string set) \<Rightarrow> csv_line list option \<Rightarrow> string set" where
  "load_existing_ids read_ids file =
     (case file of
        None \<Rightarrow> {}
      | Some [] \<Rightarrow> {}
      | Some (Header cols # ls) \<Rightarrow>
          (if ''id'' \<in> set cols then read_ids (Header cols # ls) else {})
      | Some (Row r # ls) \<Rightarrow> read_ids (Row r # ls))"

subsection \<open>Saving and reloading the state\<close>

text \<open>
  The dict that \<^verbatim>\<open>main\<close> holds, as \<^verbatim>\<open>json.dump\<close> writes it, and the way back: the
  four keys with the types the scripts use them at. \<open>state_of_dict\<close> gives \<open>None\<close>
  for a dict that is not such a state; those runs are outside the loop model below.
\<close>

definition state_dict :: "progress \<Rightarrow> dict" where
  "state_dict st =
     [(''year'', JInt (year st)),
      (''offset'', JInt (offset st)),
      (''written_header'', JBool (written_header st)),
      (''total_saved'', JInt (total_saved st))]"

definition state_of_dict :: "dict \<Rightarrow> progress option" where
  "state_of_dict d =
     (case (map_of d ''year'', map_of d ''offset'',
            map_of d ''written_header'', map_of d ''total_saved'') of
        (Some (JInt y), Some (JInt offs), Some (JBool h), Some (JInt n)) \<Rightarrow>
          Some \<lparr>year = y, offset = offs, written_header = h, total_saved = n\<rparr>
      | _ \<Rightarrow> None)"

definition save_checkpoint :: "progress \<Rightarrow> disk \<Rightarrow> disk" where
  "save_checkpoint st d = d\<lparr>checkpoint_file := Some (Json (JObj (state_dict st)))\<rparr>"

subsection \<open>The driving loop\<close>

text \<open>
  \<^verbatim>\<open>main\<close> as a machine that executes one effect per step, so that a run can be cut
  between any two of them. The program points, with the lines of \<^verbatim>\<open>get_data.py\<close>:
  \<^item> \<open>Outer\<close>: the test of \<^verbatim>\<open>while y >= YEAR_START\<close> (97);
  \<^item> \<open>Fetch\<close>: the call of \<^verbatim>\<open>fetch_page\<close> (103);
  \<^item> \<open>Append awards\<close>: a non-empty page is about to be merged (112, 113);
  \<^item> \<open>SaveAppended count\<close>: the save after the merge (114);
  \<^item> \<open>Test count\<close>: the test \<^verbatim>\<open>count < RPP\<close> (119);
  \<^item> \<open>SaveExhausted\<close>: the year was decremented, the save is next (109 and 124);
  \<^item> \<open>SaveAdvance\<close>: the offset was advanced, the save is next (129);
  \<^item> \<open>Finished\<close>: the outer loop was left.
\<close>

datatype pc =
    Outer
  | Fetch
  | Append "award list"
  | SaveAppended nat
  | Test nat
  | SaveExhausted
  | SaveAdvance
  | Finished

text \<open>
  The locals \<^verbatim>\<open>y\<close> and \<^verbatim>\<open>offset\<close>, the state dict, both files, the identifier set
  loaded at start, and the log of the requests \<^verbatim>\<open>(y, offset)\<close> passed to
  \<^verbatim>\<open>fetch_page\<close> so far.
\<close>

record config =
  pc :: pc
  loc_y :: int
  loc_offset :: int
  state :: progress
  files :: disk
  existing_ids :: "string set"
  fetched :: "(int \<times> int) list"

text \<open>
  \<open>remote k y offs\<close> is the page that the call \<^verbatim>\<open>fetch_page(y, offs)\<close> returns when
  \<open>k\<close> calls were made before it in this process: the award objects at
  \<^verbatim>\<open>response.award\<close>, or the empty list.
\<close>

type_synonym remote = "nat \<Rightarrow> int \<Rightarrow> int \<Rightarrow> award list"

text \<open>Building the frame and calling the script's own \<^verbatim>\<open>append_chunk\<close>.\<close>

definition merge ::
  "script \<Rightarrow> award list \<Rightarrow> progress \<Rightarrow> string set \<Rightarrow> csv_line list option
     \<Rightarrow> progress \<times> csv_line list option" where
  "merge sc awards st ids file =
     (case sc of
        GetData \<Rightarrow> append_chunk (DataFrame awards) st file
      | GetMoreData cy \<Rightarrow> snd (append_chunk_more (DataFrame awards) st ids file))"

text \<open>The three assignments that close a year.\<close>

definition year_done :: "config \<Rightarrow> config" where
  "year_done c =
     c\<lparr>pc := SaveExhausted,
       loc_y := loc_y c - 1,
       state := (state c)\<lparr>year := loc_y c - 1, offset := 1\<rparr>\<rparr>"

definition step :: "script \<Rightarrow> remote \<Rightarrow> config \<Rightarrow> config" where
  "step sc remote c =
     (case pc c of
        Outer \<Rightarrow>
          if loc_y c \<ge> YEAR_START
          then c\<lparr>pc := Fetch, loc_offset := max (offset (state c)) 1\<rparr>
          else c\<lparr>pc := Finished\<rparr>
      | Fetch \<Rightarrow>
          (let awards = remote (length (fetched c)) (loc_y c) (loc_offset c);
               c1 = c\<lparr>fetched := fetched c @ [(loc_y c, loc_offset c)]\<rparr>
           in if awards = [] then year_done c1 else c1\<lparr>pc := Append awards\<rparr>)
      | Append awards \<Rightarrow>
          (let (st, file) =
                 merge sc awards (state c) (existing_ids c) (output_file (files c))
           in c\<lparr>pc := SaveAppended (length awards),
                state := st,
                files := (files c)\<lparr>output_file := file\<rparr>\<rparr>)
      | SaveAppended count \<Rightarrow>
          c\<lparr>pc := Test count, files := save_checkpoint (state c) (files c)\<rparr>
      | Test count \<Rightarrow>
          if count < RPP then year_done c
          else c\<lparr>pc := SaveAdvance,
                 loc_offset := loc_offset c + int RPP,
                 state := (state c)\<lparr>offset := loc_offset c + int RPP\<rparr>\<rparr>
      | SaveExhausted \<Rightarrow>
          c\<lparr>pc := Outer, files := save_checkpoint (state c) (files c)\<rparr>
      | SaveAdvance \<Rightarrow>
          c\<lparr>pc := Fetch, files := save_checkpoint (state c) (files c)\<rparr>
      | Finished \<Rightarrow> c)"

fun run :: "script \<Rightarrow> remote \<Rightarrow> nat \<Rightarrow> config \<Rightarrow> config" where
  "run sc remote 0 c = c"
| "run sc remote (Suc n) c = run sc remote n (step sc remote c)"

text \<open>
  The start of \<^verbatim>\<open>main\<close> up to the outer loop: \<^verbatim>\<open>reset_files\<close>,
  \<^verbatim>\<open>load_checkpoint\<close>, \<^verbatim>\<open>load_existing_ids\<close> (only in \<^verbatim>\<open>get_more_data.py\<close>) and
  \<^verbatim>\<open>y = state["year"]\<close>. \<open>None\<close>: \<^verbatim>\<open>load_checkpoint\<close> raised or the dict is not a
  progress state.
\<close>

definition start ::
  "script \<Rightarrow> (csv_line list \<Rightarrow> string set) \<Rightarrow> disk \<Rightarrow> config option" where
  "start sc read_ids d =
     (let d1 = reset_files sc d
      in case load_checkpoint sc d1 of
           Inl e \<Rightarrow> None
         | Inr dict \<Rightarrow>
             (case state_of_dict dict of
                None \<Rightarrow> None
              | Some st \<Rightarrow>
                  Some \<lparr>pc = Outer,
                        loc_y = year st,
                        loc_offset = offset st,
                        state = st,
                        files = d1,
                        existing_ids =
                          (case sc of
                             GetData \<Rightarrow> {}
                           | GetMoreData cy \<Rightarrow> load_existing_ids read_ids (output_file d1)),
                        fetched = []\<rparr>))"

text \<open>How many header lines a file holds.\<close>

definition headers :: "csv_line list option \<Rightarrow> nat" where
  "headers file =
     (case file of
        None \<Rightarrow> 0
      | Some ls \<Rightarrow> length (filter (\<lambda>l. case l of Header cols \<Rightarrow> True | Row r \<Rightarrow> False) ls))"

subsection \<open>Save points and the invariant of the loop\<close>

text \<open>
  \<open>save_point\<close>: the next statement is a call of \<^verbatim>\<open>save_checkpoint\<close>. \<open>settled\<close>:
  no assignment to the state is waiting to be saved. \<open>in_year\<close>: inside the inner loop,
  before the year is closed. \<open>synced\<close>: the checkpoint file holds the state in memory.
\<close>

fun save_point :: "pc \<Rightarrow> bool" where
  "save_point (SaveAppended count) = True"
| "save_point SaveExhausted = True"
| "save_point SaveAdvance = True"
| "save_point p = False"

fun settled :: "pc \<Rightarrow> bool" where
  "settled Outer = True"
| "settled Fetch = True"
| "settled (Test count) = True"
| "settled Finished = True"
| "settled p = False"

fun in_year :: "pc \<Rightarrow> bool" where
  "in_year Outer = False"
| "in_year SaveExhausted = False"
| "in_year Finished = False"
| "in_year p = True"

definition synced :: "config \<Rightarrow> bool" where
  "synced c = (checkpoint_file (files c) = Some (Json (JObj (state_dict (state c)))))"

text \<open>
  What holds at every program point of a run: \<^verbatim>\<open>y\<close> is the state's year and never
  above \<^verbatim>\<open>YEAR_END\<close>; once a page was requested, the checkpoint is in step with the
  state wherever no save is pending, and the state's offset is the local one.
\<close>

definition loop_inv :: "script \<Rightarrow> config \<Rightarrow> bool" where
  "loop_inv sc c =
     (loc_y c = year (state c)
      \<and> year (state c) \<le> YEAR_END sc
      \<and> (pc c \<noteq> Outer \<and> pc c \<noteq> Fetch \<and> pc c \<noteq> Finished \<longrightarrow> fetched c \<noteq> [])
      \<and> (fetched c \<noteq> [] \<and> settled (pc c) \<longrightarrow> synced c)
      \<and> (fetched c \<noteq> [] \<and> pc c = Outer \<longrightarrow> offset (state c) = 1)
      \<and> (fetched c \<noteq> [] \<and> pc c = Fetch \<longrightarrow> offset (state c) = loc_offset c)
      \<and> (pc c = SaveAdvance \<longrightarrow> offset (state c) = loc_offset c)
      \<and> (pc c = SaveExhausted \<longrightarrow> offset (state c) = 1)
      \<and> (in_year (pc c) \<longrightarrow> 1 \<le> loc_offset c \<and> YEAR_START \<le> loc_y c)
      \<and> (pc c = Finished \<longrightarrow> loc_y c < YEAR_START))"



subsection \<open>Two runs on the same remote\<close>


definition read_back :: "csv_line list \<Rightarrow> string set" where
  "read_back ls =
     set (concat (map (\<lambda>l. case l of
                               Header cols \<Rightarrow> []
                             | Row r \<Rightarrow> (case map_of r ''id'' of Some (SStr s) \<Rightarrow> [s] | _ \<Rightarrow> []))
                      ls))"




subsection \<open>Sample inputs\<close>

text \<open>A network that fails every attempt, and one that answers on the third.\<close>

definition http_down :: http where
  "http_down ps attempt = Inl RequestException"

definition sample_body :: json where
  "sample_body =
     JObj [(''response'', JObj [(''award'', JArr [JObj [(''title'', JStr ''Grant'')]])])]"

definition http_flaky :: http where
  "http_flaky ps attempt = (if attempt < 3 then Inl RequestException else Inr sample_body)"

text \<open>
  The checkpoint that a completed run leaves behind: the year below \<^verbatim>\<open>YEAR_START\<close>.
\<close>

definition finished_checkpoint :: dict where
  "finished_checkpoint =
     [(''year'', JInt 2018),
      (''offset'', JInt 1),
      (''written_header'', JBool True),
      (''total_saved'', JInt 51)]"

text \<open>
  Award objects with and without an identifier, and the state of a run that has
  already written the header and one row.
\<close>

definition award_A123 :: award where
  "award_A123 = [(''id'', SStr ''A123''), (''title'', SStr ''Old grant'')]"

definition award_B456 :: award where
  "award_B456 = [(''id'', SStr ''B456''), (''title'', SStr ''New grant'')]"

definition award_no_id :: award where
  "award_no_id = [(''agency'', SStr ''NSF''), (''title'', SStr ''Grant'')]"

definition one_saved :: progress where
  "one_saved = \<lparr>year = 2024, offset = 1, written_header = True, total_saved = 1\<rparr>"

text \<open>
  A remote with 35 awards in 2024, a full page and a page of 10, and none before.
\<close>

definition sample_remote :: remote where
  "sample_remote k y offs =
     (if y = 2024 \<and> offs = 1 then replicate 25 award_no_id
      else if y = 2024 \<and> offs = 26 then replicate 10 award_no_id
      else [])"

definition empty_disk :: disk where
  "empty_disk = \<lparr>checkpoint_file = None, output_file = None\<rparr>"

text \<open>
  The machine of \<^verbatim>\<open>get_data.py\<close> about to call \<^verbatim>\<open>fetch_page(y, offs)\<close> on the files
  \<open>d\<close>, with \<open>n\<close> rows saved and the requests \<open>fs\<close> behind it; the files after the
  first page of \<open>sample_remote\<close> and after the second.
\<close>

definition fetching :: "disk \<Rightarrow> int \<Rightarrow> int \<Rightarrow> int \<Rightarrow> (int \<times> int) list \<Rightarrow> config" where
  "fetching d y offs n fs =
     \<lparr>pc = Fetch, loc_y = y, loc_offset = offs,
      state = \<lparr>year = y, offset = offs, written_header = (n > 0), total_saved = n\<rparr>,
      files = d, existing_ids = {}, fetched = fs\<rparr>"

definition after_first_page :: disk where
  "after_first_page =
     \<lparr>checkpoint_file =
        Some (Json (JObj [(''year'', JInt 2024), (''offset'', JInt 26),
                          (''written_header'', JBool True), (''total_saved'', JInt 25)])),
      output_file = Some (Header [''agency'', ''title''] # replicate 25 (Row award_no_id))\<rparr>"

definition after_second_page :: disk where
  "after_second_page =
     \<lparr>checkpoint_file =
        Some (Json (JObj [(''year'', JInt 2023), (''offset'', JInt 1),
                          (''written_header'', JBool True), (''total_saved'', JInt 35)])),
      output_file = Some (Header [''agency'', ''title''] # replicate 35 (Row award_no_id))\<rparr>"

text \<open>
  A remote with two awards that carry identifiers, in 2024, and the incremental script
  about to request them when the output holds the first.
\<close>

definition two_award_remote :: remote where
  "two_award_remote k y offs = (if y = 2024 \<and> offs = 1 then [award_A123, award_B456] else [])"

definition knowing_A123 :: config where
  "knowing_A123 =
     \<lparr>pc = Fetch, loc_y = 2024, loc_offset = 1, state = one_saved,
      files = \<lparr>checkpoint_file = None,
               output_file = Some [Header [''id'', ''title''], Row award_A123]\<rparr>,
      existing_ids = {''A123''}, fetched = []\<rparr>"

text \<open>
  A remote with a single award, in 2024; a pandas that reads no identifier back; the
  fresh incremental run of 2024 on empty files; the files as they are right after the save
  that follows the first merge, and the run restarted from them; a checkpoint in the
  middle of 2023.
\<close>

definition one_award_remote :: remote where
  "one_award_remote k y offs = (if y = 2024 \<and> offs = 1 then [award_no_id] else [])"

definition no_ids :: "csv_line list \<Rightarrow> string set" where
  "no_ids ls = {}"

definition fresh_run :: config where
  "fresh_run =
     \<lparr>pc = Outer, loc_y = 2024, loc_offset = 1,
      state = \<lparr>year = 2024, offset = 1, written_header = False, total_saved = 0\<rparr>,
      files = empty_disk, existing_ids = {}, fetched = []\<rparr>"

definition crash_disk :: disk where
  "crash_disk =
     \<lparr>checkpoint_file =
        Some (Json (JObj [(''year'', JInt 2024), (''offset'', JInt 1),
                          (''written_header'', JBool True), (''total_saved'', JInt 1)])),
      output_file = Some [Header [''agency'', ''title''], Row award_no_id]\<rparr>"

definition resumed_run :: config where
  "resumed_run =
     \<lparr>pc = Outer, loc_y = 2024, loc_offset = 1, state = one_saved,
      files = crash_disk, existing_ids = {}, fetched = []\<rparr>"

definition midyear_disk :: disk where
  "midyear_disk =
     \<lparr>checkpoint_file =
        Some (Json (JObj [(''year'', JInt 2023), (''offset'', JInt 26),
                          (''written_header'', JBool True), (''total_saved'', JInt 60)])),
      output_file = Some [Header [''agency'', ''title''], Row award_no_id]\<rparr>"



definition existing_output_disk :: disk where
  "existing_output_disk =
     \<lparr>checkpoint_file = None,
      output_file = Some [Header [''agency'', ''title''], Row award_no_id]\<rparr>"

definition continued_run :: config where
  "continued_run =
     \<lparr>pc = Outer, loc_y = 2024, loc_offset = 1,
      state = \<lparr>year = 2024, offset = 1, written_header = True, total_saved = 0\<rparr>,
      files = existing_output_disk, existing_ids = {}, fetched = []\<rparr>"



text \<open>
  A checkpoint at the last year with no output file, and an output file whose header has
  no \<^verbatim>\<open>id\<close> column with no checkpoint.
\<close>

definition late_disk :: disk where
  "late_disk =
     \<lparr>checkpoint_file =
        Some (Json (JObj [(''year'', JInt 2019), (''offset'', JInt 1),
                          (''written_header'', JBool False), (''total_saved'', JInt 0)])),
      output_file = None\<rparr>"

definition titles_disk :: disk where
  "titles_disk = \<lparr>checkpoint_file = None, output_file = Some [Header [''title'']]\<rparr>"

section \<open>Properties\<close>

subsection \<open>Loading the checkpoint\<close>

lemma map_of_dict_set:
  "map_of (dict_set d k v) k' = (if k' = k then Some v else map_of d k')"
  by (induction d) auto

lemma map_of_clamp_state:
  "map_of (clamp_state sc st) k =
     (if k = ''offset'' then Some (JInt 1)
      else if k = ''year'' then Some (JInt (YEAR_END sc))
      else map_of st k)"
  by (simp add: clamp_state_def map_of_dict_set)

lemma load_checkpoint_year_range:
  assumes "YEAR_START \<le> YEAR_END sc" and "load_checkpoint sc d = Inr st'"
  shows "\<exists>y. map_of st' ''year'' = Some (JInt y) \<and> YEAR_START \<le> y \<and> y \<le> YEAR_END sc"
  using assms
  by (auto simp: load_checkpoint_def default_state_def map_of_clamp_state dict_get_def
                 py_gt_def py_lt_def YEAR_START_def
           split: option.splits content.splits json.splits sum.splits bool.splits if_splits)

text \<open>
  C4. A checkpoint whose year is an integer above \<^verbatim>\<open>YEAR_END\<close> or below
  \<^verbatim>\<open>YEAR_START\<close> is returned with the year set to \<^verbatim>\<open>YEAR_END\<close> and the offset
  set to 1, every other key as it was. Hence the year of every state that
  \<^verbatim>\<open>load_checkpoint\<close> returns is an integer within \<^verbatim>\<open>[YEAR_START, YEAR_END]\<close>; the
  range is not empty when the clock of \<^verbatim>\<open>get_more_data.py\<close> is not before 2019.
\<close>

theorem load_checkpoint_clamps:
  "(checkpoint_file d = Some (Json (JObj st)) \<and> map_of st ''year'' = Some (JInt y)
      \<and> (y > YEAR_END sc \<or> y < YEAR_START)
    \<longrightarrow> load_checkpoint sc d = Inr (clamp_state sc st)
        \<and> map_of (clamp_state sc st) ''year'' = Some (JInt (YEAR_END sc))
        \<and> map_of (clamp_state sc st) ''offset'' = Some (JInt 1)
        \<and> (\<forall>k. k \<noteq> ''year'' \<and> k \<noteq> ''offset''
               \<longrightarrow> map_of (clamp_state sc st) k = map_of st k))
   \<and> (YEAR_START \<le> YEAR_END sc \<and> load_checkpoint sc d = Inr st'
    \<longrightarrow> (\<exists>y'. map_of st' ''year'' = Some (JInt y') \<and> YEAR_START \<le> y' \<and> y' \<le> YEAR_END sc))"
proof (intro conjI impI)
  assume "checkpoint_file d = Some (Json (JObj st)) \<and> map_of st ''year'' = Some (JInt y)
      \<and> (y > YEAR_END sc \<or> y < YEAR_START)"
  then show "load_checkpoint sc d = Inr (clamp_state sc st)"
    by (auto simp: load_checkpoint_def dict_get_def py_gt_def py_lt_def split: bool.splits)
next
  assume "YEAR_START \<le> YEAR_END sc \<and> load_checkpoint sc d = Inr st'"
  then show "\<exists>y'. map_of st' ''year'' = Some (JInt y') \<and> YEAR_START \<le> y' \<and> y' \<le> YEAR_END sc"
    using load_checkpoint_year_range by blast
qed (simp_all add: map_of_clamp_state)

theorem load_checkpoint_clamps_witness:
  "load_checkpoint (GetMoreData 2025)
       \<lparr>checkpoint_file = Some (Json (JObj finished_checkpoint)), output_file = None\<rparr>
     = Inr [(''year'', JInt 2025), (''offset'', JInt 1),
            (''written_header'', JBool True), (''total_saved'', JInt 51)]
   \<and> YEAR_START \<le> YEAR_END (GetMoreData 2025)
   \<and> (\<exists>y'. map_of (clamp_state (GetMoreData 2025) finished_checkpoint) ''year'' = Some (JInt y')
          \<and> YEAR_START \<le> y' \<and> y' \<le> 2025)"
  using load_checkpoint_clamps
          [where sc = "GetMoreData 2025" and y = 2018 and st = finished_checkpoint
             and st' = "clamp_state (GetMoreData 2025) finished_checkpoint"
             and d = "\<lparr>checkpoint_file = Some (Json (JObj finished_checkpoint)),
                        output_file = None\<rparr>"]
  by (simp add: finished_checkpoint_def YEAR_START_def clamp_state_def)

text \<open>
  C5, as the code has it. A missing checkpoint file gives the fresh default state
  (year \<^verbatim>\<open>YEAR_END\<close>, offset 1, nothing saved). A file that \<^verbatim>\<open>json.load\<close> rejects
  makes \<^verbatim>\<open>load_checkpoint\<close> raise the decoder's error: the function has no handler.
\<close>

theorem load_checkpoint_missing_or_unparseable:
  "load_checkpoint sc \<lparr>checkpoint_file = None, output_file = out\<rparr>
     = Inr (default_state sc \<lparr>checkpoint_file = None, output_file = out\<rparr>)
   \<and> map_of (default_state sc \<lparr>checkpoint_file = None, output_file = out\<rparr>) ''year''
       = Some (JInt (YEAR_END sc))
   \<and> map_of (default_state sc \<lparr>checkpoint_file = None, output_file = out\<rparr>) ''offset''
       = Some (JInt 1)
   \<and> map_of (default_state sc \<lparr>checkpoint_file = None, output_file = out\<rparr>) ''total_saved''
       = Some (JInt 0)
   \<and> load_checkpoint sc \<lparr>checkpoint_file = Some Garbage, output_file = out\<rparr>
       = Inl JSONDecodeError"
  by (simp add: load_checkpoint_def default_state_def)

text \<open>
  C5 as the specification words it fails on a checkpoint that is present and does
  not parse, and on one that parses to a state without a year.
\<close>

theorem load_checkpoint_corrupt_raises:
  "load_checkpoint (GetMoreData 2025) \<lparr>checkpoint_file = Some Garbage, output_file = None\<rparr>
     = Inl JSONDecodeError
   \<and> load_checkpoint (GetMoreData 2025)
        \<lparr>checkpoint_file = Some (Json (JObj [(''offset'', JInt 26)])), output_file = None\<rparr>
     = Inl KeyError"
  by (simp add: load_checkpoint_def dict_get_def py_gt_def)

subsection \<open>Fetching a page\<close>

lemma fetch_attempts_all_fail:
  "\<forall>a\<in>set as. \<exists>e. try_body http ps a = Inl e \<Longrightarrow>
   fetch_attempts http ps as
     = (JArr [], concat (map (\<lambda>a. [Attempt ps, Sleep (2 * a)]) as))"
  by (induction as) auto

lemma fetch_attempts_first_success:
  "\<forall>a\<in>set pre. \<exists>e. try_body http ps a = Inl e \<Longrightarrow> try_body http ps k = Inr v \<Longrightarrow>
   fetch_attempts http ps (pre @ k # post)
     = (v, concat (map (\<lambda>a. [Attempt ps, Sleep (2 * a)]) pre) @ [Attempt ps])"
  by (induction pre) auto

lemma sleeps_fetch_attempts:
  "sleeps (snd (fetch_attempts http ps as))
     = map (\<lambda>a. 2 * a) (takeWhile (\<lambda>a. \<exists>e. try_body http ps a = Inl e) as)"
  by (induction as) (auto split: sum.splits prod.splits)

lemma attempts_fetch_attempts:
  "length (attempts (snd (fetch_attempts http ps as))) \<le> length as
   \<and> set (attempts (snd (fetch_attempts http ps as))) \<subseteq> {ps}"
  by (induction as) (auto split: sum.splits prod.splits)

lemma takeWhile_upt:
  "\<exists>n. n \<le> j - i \<and> takeWhile P [i..<j] = [i..<i + n]"
proof (cases "i \<le> j")
  case True
  let ?n = "length (takeWhile P [i..<j])"
  have le: "?n \<le> j - i"
    using length_takeWhile_le [of P "[i..<j]"] by simp
  have "takeWhile P [i..<j] = take ?n [i..<j]"
    by (rule takeWhile_eq_take)
  also have "\<dots> = [i..<i + ?n]"
    using le True by (intro take_upt) linarith
  finally show ?thesis
    using le by blast
next
  case False
  then show ?thesis
    by (intro exI [of _ 0]) simp
qed

text \<open>
  C3. \<^verbatim>\<open>fetch_page\<close> returns a value whatever the network does. When every one of
  the \<^verbatim>\<open>MAX_RETRIES\<close> attempts fails it has slept \<open>2 * attempt\<close> seconds after each
  and returns the empty list. When attempt \<open>k\<close> is the first whose \<^verbatim>\<open>try\<close> block
  completes, it returns that block's value after sleeping \<open>2 * attempt\<close> seconds after
  each earlier attempt. It never makes more than \<^verbatim>\<open>MAX_RETRIES\<close> attempts, and its
  delays are \<open>2, 4, \<dots>\<close>, strictly increasing. The value of the \<^verbatim>\<open>try\<close> block is
  what the body holds at \<^verbatim>\<open>response.award\<close>, and the empty list when \<^verbatim>\<open>response\<close>
  or \<^verbatim>\<open>award\<close> is absent.
\<close>

theorem fetch_page_absorbs_failures:
  "((\<forall>a. 1 \<le> a \<and> a \<le> MAX_RETRIES \<longrightarrow> (\<exists>e. try_body http (params y offs) a = Inl e))
      \<longrightarrow> fetch_page http y offs
            = (JArr [],
               concat (map (\<lambda>a. [Attempt (params y offs), Sleep (2 * a)]) [1..<MAX_RETRIES + 1])))
   \<and> (1 \<le> k \<and> k \<le> MAX_RETRIES
        \<and> (\<forall>a. 1 \<le> a \<and> a < k \<longrightarrow> (\<exists>e. try_body http (params y offs) a = Inl e))
        \<and> try_body http (params y offs) k = Inr v
      \<longrightarrow> fetch_page http y offs
            = (v, concat (map (\<lambda>a. [Attempt (params y offs), Sleep (2 * a)]) [1..<k])
                  @ [Attempt (params y offs)]))
   \<and> length (attempts (snd (fetch_page http y offs))) \<le> MAX_RETRIES
   \<and> (\<exists>n. n \<le> MAX_RETRIES
          \<and> sleeps (snd (fetch_page http y offs)) = map (\<lambda>a. 2 * a) [1..<1 + n])
   \<and> sorted_wrt (<) (sleeps (snd (fetch_page http y offs)))
   \<and> (map_of d ''response'' = None \<longrightarrow> response_award (JObj d) = Inr (JArr []))
   \<and> (map_of d ''response'' = Some (JObj r) \<and> map_of r ''award'' = None
      \<longrightarrow> response_award (JObj d) = Inr (JArr []))
   \<and> (map_of d ''response'' = Some (JObj r) \<and> map_of r ''award'' = Some v'
      \<longrightarrow> response_award (JObj d) = Inr v')"
proof (intro conjI impI)
  assume "\<forall>a. 1 \<le> a \<and> a \<le> MAX_RETRIES \<longrightarrow> (\<exists>e. try_body http (params y offs) a = Inl e)"
  then have "\<forall>a\<in>set [1..<MAX_RETRIES + 1]. \<exists>e. try_body http (params y offs) a = Inl e"
    by auto
  then show "fetch_page http y offs
      = (JArr [],
         concat (map (\<lambda>a. [Attempt (params y offs), Sleep (2 * a)]) [1..<MAX_RETRIES + 1]))"
    unfolding fetch_page_def by (rule fetch_attempts_all_fail)
next
  assume h: "1 \<le> k \<and> k \<le> MAX_RETRIES
        \<and> (\<forall>a. 1 \<le> a \<and> a < k \<longrightarrow> (\<exists>e. try_body http (params y offs) a = Inl e))
        \<and> try_body http (params y offs) k = Inr v"
  then have split: "[1..<MAX_RETRIES + 1] = [1..<k] @ k # [Suc k..<MAX_RETRIES + 1]"
    using upt_add_eq_append [of 1 k "MAX_RETRIES + 1 - k"] upt_conv_Cons [of k "MAX_RETRIES + 1"]
    by simp
  from h have "\<forall>a\<in>set [1..<k]. \<exists>e. try_body http (params y offs) a = Inl e"
    by auto
  with h show "fetch_page http y offs
      = (v, concat (map (\<lambda>a. [Attempt (params y offs), Sleep (2 * a)]) [1..<k])
            @ [Attempt (params y offs)])"
    unfolding fetch_page_def split by (intro fetch_attempts_first_success) auto
next
  have "length (attempts (snd (fetch_page http y offs))) \<le> length [1..<MAX_RETRIES + 1]"
    unfolding fetch_page_def using attempts_fetch_attempts by blast
  then show "length (attempts (snd (fetch_page http y offs))) \<le> MAX_RETRIES"
    by (simp del: upt_Suc)
next
  obtain n where n: "n \<le> MAX_RETRIES + 1 - 1"
      "takeWhile (\<lambda>a. \<exists>e. try_body http (params y offs) a = Inl e) [1..<MAX_RETRIES + 1]
         = [1..<1 + n]"
    using takeWhile_upt by blast
  then show "\<exists>n. n \<le> MAX_RETRIES
          \<and> sleeps (snd (fetch_page http y offs)) = map (\<lambda>a. 2 * a) [1..<1 + n]"
    by (intro exI [of _ n]) (simp add: fetch_page_def sleeps_fetch_attempts)
  from n show "sorted_wrt (<) (sleeps (snd (fetch_page http y offs)))"
    by (simp add: fetch_page_def sleeps_fetch_attempts sorted_wrt_map del: upt_Suc)
qed (simp_all add: response_award_def py_get_def dict_get_def)

theorem fetch_page_absorbs_failures_witness:
  "fetch_page http_down 2024 1
     = (JArr [],
        [Attempt (params 2024 1), Sleep 2, Attempt (params 2024 1), Sleep 4,
         Attempt (params 2024 1), Sleep 6])
   \<and> fetch_page http_flaky 2024 1
     = (JArr [JObj [(''title'', JStr ''Grant'')]],
        [Attempt (params 2024 1), Sleep 2, Attempt (params 2024 1), Sleep 4,
         Attempt (params 2024 1)])
   \<and> response_award (JObj []) = Inr (JArr [])
   \<and> response_award (JObj [(''response'', JObj [])]) = Inr (JArr [])"
proof -
  have all: "[1..<MAX_RETRIES + 1] = [1, 2, 3]" and two: "[1..<3] = [1, 2::nat]"
    by (simp_all add: MAX_RETRIES_def upt_rec)
  have down: "\<forall>a. 1 \<le> a \<and> a \<le> MAX_RETRIES
      \<longrightarrow> (\<exists>e. try_body http_down (params 2024 1) a = Inl e)"
    by (simp add: try_body_def http_down_def)
  have flaky: "1 \<le> (3::nat) \<and> 3 \<le> MAX_RETRIES
      \<and> (\<forall>a. 1 \<le> a \<and> a < 3 \<longrightarrow> (\<exists>e. try_body http_flaky (params 2024 1) a = Inl e))
      \<and> try_body http_flaky (params 2024 1) 3 = Inr (JArr [JObj [(''title'', JStr ''Grant'')]])"
    by (simp add: try_body_def http_flaky_def sample_body_def response_award_def py_get_def
          dict_get_def MAX_RETRIES_def)
  have "fetch_page http_down 2024 1
      = (JArr [], concat (map (\<lambda>a. [Attempt (params 2024 1), Sleep (2 * a)]) [1, 2, 3]))"
    using fetch_page_absorbs_failures
            [where http = http_down and y = 2024 and offs = 1 and d = "[]"] down
    unfolding all by blast
  moreover have "fetch_page http_flaky 2024 1
      = (JArr [JObj [(''title'', JStr ''Grant'')]],
         concat (map (\<lambda>a. [Attempt (params 2024 1), Sleep (2 * a)]) [1, 2])
           @ [Attempt (params 2024 1)])"
    using fetch_page_absorbs_failures
            [where http = http_flaky and y = 2024 and offs = 1 and k = 3
               and v = "JArr [JObj [(''title'', JStr ''Grant'')]]" and d = "[]"] flaky
    unfolding two by blast
  moreover have "response_award (JObj []) = Inr (JArr [])"
      "response_award (JObj [(''response'', JObj [])]) = Inr (JArr [])"
    using fetch_page_absorbs_failures
            [where d = "[]"]
          fetch_page_absorbs_failures
            [where d = "[(''response'', JObj [])]" and r = "[]"]
    by simp_all
  ultimately show ?thesis
    by simp
qed

subsection \<open>Merging rows in the incremental script\<close>

lemma set_columns_DataFrame:
  "set (columns (DataFrame batch)) = (\<Union>row\<in>set batch. fst ` set row)"
  by (simp add: DataFrame_def)

lemma isin_has_id: "isin ids row \<Longrightarrow> ''id'' \<in> fst ` set row"
  by (auto simp: isin_def split: option.splits scalar.splits dest!: map_of_SomeD intro: rev_image_eqI)

lemma no_id_column_keeps_all:
  assumes "''id'' \<notin> set (columns (DataFrame batch))"
  shows "filter (\<lambda>row. \<not> isin ids row) batch = batch"
proof -
  have "\<not> isin ids row" if "row \<in> set batch" for row
    using that assms isin_has_id [of ids row] by (auto simp: set_columns_DataFrame)
  then show ?thesis
    by simp
qed

text \<open>
  C6. For every batch that has a column and every identifier set, the incremental
  \<^verbatim>\<open>append_chunk\<close> appends exactly the rows whose identifier is not in the set, in
  their order, and returns their number; when no row is left it writes nothing. In the
  witness the output holds \<^verbatim>\<open>A123\<close>, the batch holds \<^verbatim>\<open>A123\<close> and \<^verbatim>\<open>B456\<close>, and
  only \<^verbatim>\<open>B456\<close> is appended.
\<close>

theorem append_chunk_more_filters:
  "columns (DataFrame batch) \<noteq> [] \<longrightarrow>
   append_chunk_more (DataFrame batch) st ids out
     = (if filter (\<lambda>row. \<not> isin ids row) batch = [] then (0, st, out)
        else (length (filter (\<lambda>row. \<not> isin ids row) batch),
              st\<lparr>written_header := True,
                 total_saved :=
                   total_saved st + int (length (filter (\<lambda>row. \<not> isin ids row) batch))\<rparr>,
              Some ((case out of None \<Rightarrow> [] | Some ls \<Rightarrow> ls)
                    @ (if written_header st then [] else [Header (columns (DataFrame batch))])
                    @ map Row (filter (\<lambda>row. \<not> isin ids row) batch))))"
proof
  assume cols: "columns (DataFrame batch) \<noteq> []"
  show "append_chunk_more (DataFrame batch) st ids out
     = (if filter (\<lambda>row. \<not> isin ids row) batch = [] then (0, st, out)
        else (length (filter (\<lambda>row. \<not> isin ids row) batch),
              st\<lparr>written_header := True,
                 total_saved :=
                   total_saved st + int (length (filter (\<lambda>row. \<not> isin ids row) batch))\<rparr>,
              Some ((case out of None \<Rightarrow> [] | Some ls \<Rightarrow> ls)
                    @ (if written_header st then [] else [Header (columns (DataFrame batch))])
                    @ map Row (filter (\<lambda>row. \<not> isin ids row) batch))))"
  proof (cases "''id'' \<in> set (columns (DataFrame batch))")
    case True
    with cols show ?thesis
      by (auto simp: append_chunk_more_def df_empty_def to_csv_def Let_def DataFrame_def)
  next
    case False
    then have keep: "filter (\<lambda>row. \<not> isin ids row) batch = batch"
      by (rule no_id_column_keeps_all)
    from False cols show ?thesis
      unfolding keep
      by (simp add: append_chunk_more_def df_empty_def to_csv_def Let_def)
        (auto simp: DataFrame_def)
  qed
qed

theorem append_chunk_more_filters_witness:
  "append_chunk_more (DataFrame [award_A123, award_B456]) one_saved {''A123''}
       (Some [Header [''id'', ''title''], Row award_A123])
     = (1,
        \<lparr>year = 2024, offset = 1, written_header = True, total_saved = 2\<rparr>,
        Some [Header [''id'', ''title''], Row award_A123, Row award_B456])"
  using append_chunk_more_filters
          [where batch = "[award_A123, award_B456]" and st = one_saved and ids = "{''A123''}"
             and out = "Some [Header [''id'', ''title''], Row award_A123]"]
  by (simp add: DataFrame_def award_A123_def award_B456_def isin_def one_saved_def)

text \<open>
  C9. When the batch has an \<^verbatim>\<open>id\<close> column and every row is filtered out, the
  incremental \<^verbatim>\<open>append_chunk\<close> returns 0 and leaves the output file and the state,
  \<^verbatim>\<open>written_header\<close> and \<^verbatim>\<open>total_saved\<close> included, as they were.
\<close>

theorem append_chunk_more_all_duplicates:
  "''id'' \<in> set (columns df) \<and> (\<forall>row\<in>set (rows df). isin ids row)
   \<longrightarrow> append_chunk_more df st ids out = (0, st, out)"
  by (simp add: append_chunk_more_def df_empty_def)

theorem append_chunk_more_all_duplicates_witness:
  "append_chunk_more (DataFrame [award_A123]) one_saved {''A123''}
       (Some [Header [''id'', ''title''], Row award_A123])
     = (0, one_saved, Some [Header [''id'', ''title''], Row award_A123])"
  using append_chunk_more_all_duplicates
          [where df = "DataFrame [award_A123]" and st = one_saved and ids = "{''A123''}"
             and out = "Some [Header [''id'', ''title''], Row award_A123]"]
  by (simp add: DataFrame_def award_A123_def isin_def)

text \<open>
  C10. The filter runs only under \<^verbatim>\<open>if "id" in df.columns\<close>: a batch with a column
  whose records have no \<^verbatim>\<open>id\<close> key is appended whole, whatever the identifier set and
  the output file hold. The field list sent as \<^verbatim>\<open>printFields\<close> with every attempt of
  every request does not name \<^verbatim>\<open>id\<close>.
\<close>

theorem append_chunk_more_without_id:
  "((\<forall>row\<in>set batch. map_of row ''id'' = None) \<and> columns (DataFrame batch) \<noteq> []
    \<longrightarrow> append_chunk_more (DataFrame batch) st ids out
        = (length batch,
           st\<lparr>written_header := True, total_saved := total_saved st + int (length batch)\<rparr>,
           Some ((case out of None \<Rightarrow> [] | Some ls \<Rightarrow> ls)
                 @ (if written_header st then [] else [Header (columns (DataFrame batch))])
                 @ map Row batch)))
   \<and> ''id'' \<notin> set print_field_names
   \<and> PRINT_FIELDS = join '','' print_field_names
   \<and> map_of (params y offs) ''printFields'' = Some PRINT_FIELDS
   \<and> set (attempts (snd (fetch_page http y offs))) \<subseteq> {params y offs}"
proof (intro conjI impI)
  assume h: "(\<forall>row\<in>set batch. map_of row ''id'' = None) \<and> columns (DataFrame batch) \<noteq> []"
  then have noid: "''id'' \<notin> set (columns (DataFrame batch))"
    by (auto simp: set_columns_DataFrame map_of_eq_None_iff)
  with h show "append_chunk_more (DataFrame batch) st ids out
        = (length batch,
           st\<lparr>written_header := True, total_saved := total_saved st + int (length batch)\<rparr>,
           Some ((case out of None \<Rightarrow> [] | Some ls \<Rightarrow> ls)
                 @ (if written_header st then [] else [Header (columns (DataFrame batch))])
                 @ map Row batch))"
    by (simp add: append_chunk_more_def df_empty_def to_csv_def Let_def)
      (auto simp: DataFrame_def)
next
  show "set (attempts (snd (fetch_page http y offs))) \<subseteq> {params y offs}"
    unfolding fetch_page_def using attempts_fetch_attempts by blast
qed (simp_all add: print_field_names_def PRINT_FIELDS_def params_def)

theorem append_chunk_more_without_id_witness:
  "append_chunk_more (DataFrame [award_no_id]) one_saved {''A123''}
       (Some [Header [''agency'', ''title''], Row award_no_id])
     = (1,
        \<lparr>year = 2024, offset = 1, written_header = True, total_saved = 2\<rparr>,
        Some [Header [''agency'', ''title''], Row award_no_id, Row award_no_id])"
  using append_chunk_more_without_id
          [where batch = "[award_no_id]" and st = one_saved and ids = "{''A123''}"
             and out = "Some [Header [''agency'', ''title''], Row award_no_id]"]
  by (simp add: DataFrame_def award_no_id_def one_saved_def)

subsection \<open>One page of the driving loop\<close>

lemma run_add: "run sc remote (m + n) c = run sc remote n (run sc remote m c)"
  by (induction m arbitrary: c) auto

lemma step_fetched_mono:
  "\<exists>more. fetched (step sc remote c) = fetched c @ more
     \<and> (\<forall>p\<in>set more. fst p \<le> loc_y c)
     \<and> loc_y (step sc remote c) \<le> loc_y c"
  by (cases "pc c") (auto simp: step_def year_done_def Let_def split: prod.splits)

lemma run_fetched_mono:
  "\<exists>more. fetched (run sc remote n c) = fetched c @ more
     \<and> (\<forall>p\<in>set more. fst p \<le> loc_y c)
     \<and> loc_y (run sc remote n c) \<le> loc_y c"
proof (induction n arbitrary: c)
  case 0
  then show ?case by simp
next
  case (Suc n)
  obtain m1 where m1: "fetched (step sc remote c) = fetched c @ m1"
      "\<forall>p\<in>set m1. fst p \<le> loc_y c" "loc_y (step sc remote c) \<le> loc_y c"
    using step_fetched_mono by blast
  obtain m2 where m2: "fetched (run sc remote n (step sc remote c)) = fetched (step sc remote c) @ m2"
      "\<forall>p\<in>set m2. fst p \<le> loc_y (step sc remote c)"
      "loc_y (run sc remote n (step sc remote c)) \<le> loc_y (step sc remote c)"
    using Suc.IH by blast
  show ?case
    using m1 m2 by (intro exI [of _ "m1 @ m2"]) fastforce
qed

lemma later_fetches_below:
  assumes "fetched c' = fs @ [p0]" and "loc_y c' < y0"
  shows "\<forall>p\<in>set (drop (length fs + 1) (fetched (run sc remote n c'))). fst p < y0"
proof -
  obtain more where "fetched (run sc remote n c') = fetched c' @ more"
      "\<forall>p\<in>set more. fst p \<le> loc_y c'"
    using run_fetched_mono by blast
  with assms show ?thesis
    by fastforce
qed

lemma run2: "run sc remote 2 c = step sc remote (step sc remote c)"
  by (simp add: eval_nat_numeral)

lemma run5:
  "run sc remote 5 c
     = step sc remote (step sc remote (step sc remote (step sc remote (step sc remote c))))"
  by (simp add: eval_nat_numeral)

lemma rows_DataFrame: "rows (DataFrame awards) = awards"
  by (simp add: DataFrame_def)

lemma merge_explicit:
  "merge sc page st ids out =
     (let kept = (case sc of GetData \<Rightarrow> page
                  | GetMoreData cy \<Rightarrow> filter (\<lambda>row. \<not> isin ids row) page);
          written = (sc = GetData \<or> (kept \<noteq> [] \<and> columns (DataFrame page) \<noteq> []))
      in if written
         then (st\<lparr>written_header := True, total_saved := total_saved st + int (length kept)\<rparr>,
               Some ((case out of None \<Rightarrow> [] | Some ls \<Rightarrow> ls)
                     @ (if written_header st then [] else [Header (columns (DataFrame page))])
                     @ map Row kept))
         else (st, out))"
proof (cases sc)
  case GetData
  then show ?thesis
    by (simp add: merge_def append_chunk_def to_csv_def rows_DataFrame)
next
  case (GetMoreData cy)
  show ?thesis
  proof (cases "''id'' \<in> set (columns (DataFrame page))")
    case True
    with GetMoreData show ?thesis
      by (auto simp: merge_def append_chunk_more_def df_empty_def to_csv_def Let_def
            rows_DataFrame)
  next
    case False
    then have "filter (\<lambda>row. \<not> isin ids row) page = page"
      by (rule no_id_column_keeps_all)
    with False GetMoreData show ?thesis
      by (auto simp: merge_def append_chunk_more_def df_empty_def to_csv_def Let_def
            rows_DataFrame)
  qed
qed

lemma save_checkpoint_explicit:
  "save_checkpoint st d
     = \<lparr>checkpoint_file =
          Some (Json (JObj [(''year'', JInt (year st)), (''offset'', JInt (offset st)),
                            (''written_header'', JBool (written_header st)),
                            (''total_saved'', JInt (total_saved st))])),
        output_file = output_file d\<rparr>"
  by (simp add: save_checkpoint_def state_dict_def)

text \<open>
  C2. At a call of \<^verbatim>\<open>fetch_page\<close>: an empty page makes the loop set the year to
  \<open>y - 1\<close> and the offset to 1 and write exactly that state to the checkpoint file, the
  output file untouched; two steps later it is back at the outer test with one request
  logged. A non-empty page of fewer than \<^verbatim>\<open>RPP\<close> records is merged first: the output
  file gets the header, if none was written yet, and the rows (all of them in
  \<^verbatim>\<open>get_data.py\<close>, those whose identifier is not known in \<^verbatim>\<open>get_more_data.py\<close>), the
  counters are updated, and then the year is closed in the same way, with that one
  request and no further one for the year. In both cases every later request of the run
  is for an earlier year. A page of exactly \<^verbatim>\<open>RPP\<close> records is merged in the same way,
  the offset grows by \<^verbatim>\<open>RPP\<close>, the checkpoint file holds the new offset and the new
  counters, and the loop is back at the call for the same year.
\<close>

theorem year_exhausted_or_advanced:
  "(pc c = Fetch \<and> remote (length (fetched c)) (loc_y c) (loc_offset c) = []
    \<longrightarrow> run sc remote 2 c
          = c\<lparr>pc := Outer,
              loc_y := loc_y c - 1,
              state := (state c)\<lparr>year := loc_y c - 1, offset := 1\<rparr>,
              files :=
                \<lparr>checkpoint_file =
                   Some (Json (JObj [(''year'', JInt (loc_y c - 1)), (''offset'', JInt 1),
                                     (''written_header'', JBool (written_header (state c))),
                                     (''total_saved'', JInt (total_saved (state c)))])),
                 output_file = output_file (files c)\<rparr>,
              fetched := fetched c @ [(loc_y c, loc_offset c)]\<rparr>
        \<and> (\<forall>n. \<forall>p\<in>set (drop (length (fetched c) + 1) (fetched (run sc remote (2 + n) c))).
               fst p < loc_y c))
   \<and> (pc c = Fetch \<and> remote (length (fetched c)) (loc_y c) (loc_offset c) = page
        \<and> page \<noteq> [] \<and> length page < RPP
    \<longrightarrow> (let kept = (case sc of GetData \<Rightarrow> page
                       | GetMoreData cy \<Rightarrow> filter (\<lambda>row. \<not> isin (existing_ids c) row) page);
               written = (sc = GetData \<or> (kept \<noteq> [] \<and> columns (DataFrame page) \<noteq> []));
               saved = (if written then total_saved (state c) + int (length kept)
                        else total_saved (state c));
               header = (written \<or> written_header (state c));
               out = (if written
                      then Some ((case output_file (files c) of None \<Rightarrow> [] | Some ls \<Rightarrow> ls)
                                 @ (if written_header (state c) then []
                                    else [Header (columns (DataFrame page))])
                                 @ map Row kept)
                      else output_file (files c))
           in run sc remote 5 c
                = c\<lparr>pc := Outer,
                    loc_y := loc_y c - 1,
                    state := \<lparr>year = loc_y c - 1, offset = 1, written_header = header,
                              total_saved = saved\<rparr>,
                    files :=
                      \<lparr>checkpoint_file =
                         Some (Json (JObj [(''year'', JInt (loc_y c - 1)), (''offset'', JInt 1),
                                           (''written_header'', JBool header),
                                           (''total_saved'', JInt saved)])),
                       output_file = out\<rparr>,
                    fetched := fetched c @ [(loc_y c, loc_offset c)]\<rparr>)
        \<and> (\<forall>n. \<forall>p\<in>set (drop (length (fetched c) + 1) (fetched (run sc remote (5 + n) c))).
               fst p < loc_y c))
   \<and> (pc c = Fetch \<and> remote (length (fetched c)) (loc_y c) (loc_offset c) = page
        \<and> length page = RPP
    \<longrightarrow> (let kept = (case sc of GetData \<Rightarrow> page
                       | GetMoreData cy \<Rightarrow> filter (\<lambda>row. \<not> isin (existing_ids c) row) page);
               written = (sc = GetData \<or> (kept \<noteq> [] \<and> columns (DataFrame page) \<noteq> []));
               saved = (if written then total_saved (state c) + int (length kept)
                        else total_saved (state c));
               header = (written \<or> written_header (state c));
               out = (if written
                      then Some ((case output_file (files c) of None \<Rightarrow> [] | Some ls \<Rightarrow> ls)
                                 @ (if written_header (state c) then []
                                    else [Header (columns (DataFrame page))])
                                 @ map Row kept)
                      else output_file (files c))
           in run sc remote 5 c
                = c\<lparr>pc := Fetch,
                    loc_offset := loc_offset c + int RPP,
                    state := \<lparr>year = year (state c), offset = loc_offset c + int RPP,
                              written_header = header, total_saved = saved\<rparr>,
                    files :=
                      \<lparr>checkpoint_file =
                         Some (Json (JObj [(''year'', JInt (year (state c))),
                                           (''offset'', JInt (loc_offset c + int RPP)),
                                           (''written_header'', JBool header),
                                           (''total_saved'', JInt saved)])),
                       output_file = out\<rparr>,
                    fetched := fetched c @ [(loc_y c, loc_offset c)]\<rparr>))"
proof (intro conjI impI)
  assume h: "pc c = Fetch \<and> remote (length (fetched c)) (loc_y c) (loc_offset c) = []"
  then show a: "run sc remote 2 c
          = c\<lparr>pc := Outer,
              loc_y := loc_y c - 1,
              state := (state c)\<lparr>year := loc_y c - 1, offset := 1\<rparr>,
              files :=
                \<lparr>checkpoint_file =
                   Some (Json (JObj [(''year'', JInt (loc_y c - 1)), (''offset'', JInt 1),
                                     (''written_header'', JBool (written_header (state c))),
                                     (''total_saved'', JInt (total_saved (state c)))])),
                 output_file = output_file (files c)\<rparr>,
              fetched := fetched c @ [(loc_y c, loc_offset c)]\<rparr>"
    by (simp add: run2 step_def year_done_def save_checkpoint_explicit)
  show "\<forall>n. \<forall>p\<in>set (drop (length (fetched c) + 1) (fetched (run sc remote (2 + n) c))).
               fst p < loc_y c"
    unfolding run_add a by (intro allI later_fetches_below) simp_all
next
  assume h: "pc c = Fetch \<and> remote (length (fetched c)) (loc_y c) (loc_offset c) = page
        \<and> page \<noteq> [] \<and> length page < RPP"
  obtain st out where m: "merge sc page (state c) (existing_ids c) (output_file (files c))
      = (st, out)"
    by (cases "merge sc page (state c) (existing_ids c) (output_file (files c))")
  from h m have b: "run sc remote 5 c
          = c\<lparr>pc := Outer,
              loc_y := loc_y c - 1,
              state := st\<lparr>year := loc_y c - 1, offset := 1\<rparr>,
              files := save_checkpoint (st\<lparr>year := loc_y c - 1, offset := 1\<rparr>)
                         ((files c)\<lparr>output_file := out\<rparr>),
              fetched := fetched c @ [(loc_y c, loc_offset c)]\<rparr>"
    by (simp add: run5 step_def year_done_def save_checkpoint_def)
  from m show "let kept = (case sc of GetData \<Rightarrow> page
                       | GetMoreData cy \<Rightarrow> filter (\<lambda>row. \<not> isin (existing_ids c) row) page);
               written = (sc = GetData \<or> (kept \<noteq> [] \<and> columns (DataFrame page) \<noteq> []));
               saved = (if written then total_saved (state c) + int (length kept)
                        else total_saved (state c));
               header = (written \<or> written_header (state c));
               out = (if written
                      then Some ((case output_file (files c) of None \<Rightarrow> [] | Some ls \<Rightarrow> ls)
                                 @ (if written_header (state c) then []
                                    else [Header (columns (DataFrame page))])
                                 @ map Row kept)
                      else output_file (files c))
           in run sc remote 5 c
                = c\<lparr>pc := Outer,
                    loc_y := loc_y c - 1,
                    state := \<lparr>year = loc_y c - 1, offset = 1, written_header = header,
                              total_saved = saved\<rparr>,
                    files :=
                      \<lparr>checkpoint_file =
                         Some (Json (JObj [(''year'', JInt (loc_y c - 1)), (''offset'', JInt 1),
                                           (''written_header'', JBool header),
                                           (''total_saved'', JInt saved)])),
                       output_file = out\<rparr>,
                    fetched := fetched c @ [(loc_y c, loc_offset c)]\<rparr>"
    unfolding b by (auto simp: merge_explicit Let_def save_checkpoint_explicit)
  show "\<forall>n. \<forall>p\<in>set (drop (length (fetched c) + 1) (fetched (run sc remote (5 + n) c))).
               fst p < loc_y c"
    unfolding run_add b by (intro allI later_fetches_below) simp_all
next
  assume h: "pc c = Fetch \<and> remote (length (fetched c)) (loc_y c) (loc_offset c) = page
        \<and> length page = RPP"
  then have ne: "page \<noteq> []"
    by (auto simp: RPP_def)
  obtain st out where m: "merge sc page (state c) (existing_ids c) (output_file (files c))
      = (st, out)"
    by (cases "merge sc page (state c) (existing_ids c) (output_file (files c))")
  from h m ne have b: "run sc remote 5 c
          = c\<lparr>pc := Fetch,
              loc_offset := loc_offset c + int RPP,
              state := st\<lparr>offset := loc_offset c + int RPP\<rparr>,
              files := save_checkpoint (st\<lparr>offset := loc_offset c + int RPP\<rparr>)
                         ((files c)\<lparr>output_file := out\<rparr>),
              fetched := fetched c @ [(loc_y c, loc_offset c)]\<rparr>"
    by (simp add: run5 step_def save_checkpoint_def)
  from m show "let kept = (case sc of GetData \<Rightarrow> page
                       | GetMoreData cy \<Rightarrow> filter (\<lambda>row. \<not> isin (existing_ids c) row) page);
               written = (sc = GetData \<or> (kept \<noteq> [] \<and> columns (DataFrame page) \<noteq> []));
               saved = (if written then total_saved (state c) + int (length kept)
                        else total_saved (state c));
               header = (written \<or> written_header (state c));
               out = (if written
                      then Some ((case output_file (files c) of None \<Rightarrow> [] | Some ls \<Rightarrow> ls)
                                 @ (if written_header (state c) then []
                                    else [Header (columns (DataFrame page))])
                                 @ map Row kept)
                      else output_file (files c))
           in run sc remote 5 c
                = c\<lparr>pc := Fetch,
                    loc_offset := loc_offset c + int RPP,
                    state := \<lparr>year = year (state c), offset = loc_offset c + int RPP,
                              written_header = header, total_saved = saved\<rparr>,
                    files :=
                      \<lparr>checkpoint_file =
                         Some (Json (JObj [(''year'', JInt (year (state c))),
                                           (''offset'', JInt (loc_offset c + int RPP)),
                                           (''written_header'', JBool header),
                                           (''total_saved'', JInt saved)])),
                       output_file = out\<rparr>,
                    fetched := fetched c @ [(loc_y c, loc_offset c)]\<rparr>"
    unfolding b by (auto simp: merge_explicit Let_def save_checkpoint_explicit)
qed

theorem year_exhausted_or_advanced_witness:
  "run GetData sample_remote 5 (fetching empty_disk 2024 1 0 [])
     = fetching after_first_page 2024 26 25 [(2024, 1)]
   \<and> run GetData sample_remote 5 (fetching after_first_page 2024 26 25 [(2024, 1)])
     = \<lparr>pc = Outer, loc_y = 2023, loc_offset = 26,
        state = \<lparr>year = 2023, offset = 1, written_header = True, total_saved = 35\<rparr>,
        files = after_second_page, existing_ids = {},
        fetched = [(2024, 1), (2024, 26)]\<rparr>
   \<and> run GetData sample_remote 2
        (fetching after_second_page 2023 1 35 [(2024, 1), (2024, 26)])
     = \<lparr>pc = Outer, loc_y = 2022, loc_offset = 1,
        state = \<lparr>year = 2022, offset = 1, written_header = True, total_saved = 35\<rparr>,
        files =
          \<lparr>checkpoint_file =
             Some (Json (JObj [(''year'', JInt 2022), (''offset'', JInt 1),
                               (''written_header'', JBool True), (''total_saved'', JInt 35)])),
           output_file = Some (Header [''agency'', ''title''] # replicate 35 (Row award_no_id))\<rparr>,
        existing_ids = {},
        fetched = [(2024, 1), (2024, 26), (2023, 1)]\<rparr>
   \<and> run (GetMoreData 2024) two_award_remote 5 knowing_A123
     = \<lparr>pc = Outer, loc_y = 2023, loc_offset = 1,
        state = \<lparr>year = 2023, offset = 1, written_header = True, total_saved = 2\<rparr>,
        files =
          \<lparr>checkpoint_file =
             Some (Json (JObj [(''year'', JInt 2023), (''offset'', JInt 1),
                               (''written_header'', JBool True), (''total_saved'', JInt 2)])),
           output_file = Some [Header [''id'', ''title''], Row award_A123, Row award_B456]\<rparr>,
        existing_ids = {''A123''},
        fetched = [(2024, 1)]\<rparr>"
proof -
  let ?c1 = "fetching empty_disk 2024 1 0 []"
  let ?c2 = "fetching after_first_page 2024 26 25 [(2024, 1)]"
  let ?c3 = "fetching after_second_page 2023 1 35 [(2024, 1), (2024, 26)]"
  have h1: "pc ?c1 = Fetch
      \<and> sample_remote (length (fetched ?c1)) (loc_y ?c1) (loc_offset ?c1)
          = replicate 25 award_no_id
      \<and> length (replicate 25 award_no_id) = RPP"
    by (simp add: fetching_def sample_remote_def RPP_def)
  have h2: "pc ?c2 = Fetch
      \<and> sample_remote (length (fetched ?c2)) (loc_y ?c2) (loc_offset ?c2)
          = replicate 10 award_no_id
      \<and> replicate 10 award_no_id \<noteq> [] \<and> length (replicate 10 award_no_id) < RPP"
    by (simp add: fetching_def sample_remote_def RPP_def)
  have h3: "pc ?c3 = Fetch
      \<and> sample_remote (length (fetched ?c3)) (loc_y ?c3) (loc_offset ?c3) = []"
    by (simp add: fetching_def sample_remote_def)
  have h4: "pc knowing_A123 = Fetch
      \<and> two_award_remote (length (fetched knowing_A123)) (loc_y knowing_A123)
           (loc_offset knowing_A123) = [award_A123, award_B456]
      \<and> [award_A123, award_B456] \<noteq> [] \<and> length [award_A123, award_B456] < RPP"
    by (simp add: knowing_A123_def two_award_remote_def RPP_def)
  note full = year_exhausted_or_advanced
      [where sc = GetData and remote = sample_remote and c = ?c1
         and page = "replicate 25 award_no_id", THEN conjunct2, THEN conjunct2]
  note short = year_exhausted_or_advanced
      [where sc = GetData and remote = sample_remote and c = ?c2
         and page = "replicate 10 award_no_id", THEN conjunct2, THEN conjunct1]
  note none = year_exhausted_or_advanced
      [where sc = GetData and remote = sample_remote and c = ?c3, THEN conjunct1]
  note incr = year_exhausted_or_advanced
      [where sc = "GetMoreData 2024" and remote = two_award_remote and c = knowing_A123
         and page = "[award_A123, award_B456]", THEN conjunct2, THEN conjunct1]
  have "run GetData sample_remote 5 ?c1 = ?c2"
    by (rule trans [OF mp [OF full h1, unfolded Let_def]]) code_simp
  moreover have "run GetData sample_remote 5 ?c2
     = \<lparr>pc = Outer, loc_y = 2023, loc_offset = 26,
        state = \<lparr>year = 2023, offset = 1, written_header = True, total_saved = 35\<rparr>,
        files = after_second_page, existing_ids = {},
        fetched = [(2024, 1), (2024, 26)]\<rparr>"
    by (rule trans [OF mp [OF short h2, THEN conjunct1, unfolded Let_def]]) code_simp
  moreover have "run GetData sample_remote 2 ?c3
     = \<lparr>pc = Outer, loc_y = 2022, loc_offset = 1,
        state = \<lparr>year = 2022, offset = 1, written_header = True, total_saved = 35\<rparr>,
        files =
          \<lparr>checkpoint_file =
             Some (Json (JObj [(''year'', JInt 2022), (''offset'', JInt 1),
                               (''written_header'', JBool True), (''total_saved'', JInt 35)])),
           output_file = Some (Header [''agency'', ''title''] # replicate 35 (Row award_no_id))\<rparr>,
        existing_ids = {},
        fetched = [(2024, 1), (2024, 26), (2023, 1)]\<rparr>"
    by (rule trans [OF mp [OF none h3, THEN conjunct1]]) code_simp
  moreover have "run (GetMoreData 2024) two_award_remote 5 knowing_A123
     = \<lparr>pc = Outer, loc_y = 2023, loc_offset = 1,
        state = \<lparr>year = 2023, offset = 1, written_header = True, total_saved = 2\<rparr>,
        files =
          \<lparr>checkpoint_file =
             Some (Json (JObj [(''year'', JInt 2023), (''offset'', JInt 1),
                               (''written_header'', JBool True), (''total_saved'', JInt 2)])),
           output_file = Some [Header [''id'', ''title''], Row award_A123, Row award_B456]\<rparr>,
        existing_ids = {''A123''},
        fetched = [(2024, 1)]\<rparr>"
    by (rule trans [OF mp [OF incr h4, THEN conjunct1, unfolded Let_def]]) code_simp
  ultimately show ?thesis
    by (intro conjI)
qed

subsection \<open>Checkpoints and restarts\<close>

lemma merge_position:
  "year (fst (merge sc awards st ids out)) = year st
   \<and> offset (fst (merge sc awards st ids out)) = offset st"
  by (cases sc) (simp_all add: merge_def append_chunk_def append_chunk_more_def Let_def)

lemma loop_inv_step:
  assumes "loop_inv sc c"
  shows "loop_inv sc (step sc remote c)"
proof (cases "pc c")
  case (Append awards)
  with assms merge_position [of sc awards "state c" "existing_ids c" "output_file (files c)"]
  show ?thesis
    by (auto simp: loop_inv_def step_def split: prod.splits)
qed (use assms in \<open>auto simp: loop_inv_def step_def year_done_def synced_def save_checkpoint_def Let_def\<close>)

lemma loop_inv_run: "loop_inv sc c \<Longrightarrow> loop_inv sc (run sc remote n c)"
  by (induction n arbitrary: c) (auto intro: loop_inv_step)

lemma state_of_dict_state_dict: "state_of_dict (state_dict st) = Some st"
  by (simp add: state_of_dict_def state_dict_def)

lemma load_checkpoint_saved:
  assumes "YEAR_START \<le> year st" and "year st \<le> YEAR_END sc"
    and "checkpoint_file d = Some (Json (JObj (state_dict st)))"
  shows "load_checkpoint sc d = Inr (state_dict st)"
  using assms by (simp add: load_checkpoint_def state_dict_def dict_get_def py_gt_def py_lt_def)

lemma load_checkpoint_le_YEAR_END:
  assumes "load_checkpoint sc d = Inr dict" and "state_of_dict dict = Some st"
  shows "year st \<le> YEAR_END sc"
proof -
  have "map_of dict ''year'' = Some (JInt (year st))"
    using assms(2) by (auto simp: state_of_dict_def split: option.splits json.splits)
  moreover have "\<exists>y. map_of dict ''year'' = Some (JInt y) \<and> y \<le> YEAR_END sc"
    using assms(1)
    by (auto simp: load_checkpoint_def default_state_def map_of_clamp_state dict_get_def
                 py_gt_def py_lt_def YEAR_START_def
           split: option.splits content.splits json.splits sum.splits bool.splits if_splits)
  ultimately show ?thesis
    by auto
qed

lemma loop_inv_start:
  assumes "start sc rd d = Some c"
  shows "loop_inv sc c"
  using assms load_checkpoint_le_YEAR_END [of sc "reset_files sc d"]
  by (auto simp: start_def loop_inv_def Let_def split: sum.splits option.splits)

lemma start_saved:
  assumes "\<not> RESET sc" and "YEAR_START \<le> year st" and "year st \<le> YEAR_END sc"
    and "checkpoint_file d = Some (Json (JObj (state_dict st)))"
  shows "\<exists>r. start sc rd d = Some r \<and> pc r = Outer \<and> state r = st \<and> loc_y r = year st
           \<and> files r = d \<and> fetched r = []"
  using assms load_checkpoint_saved [of st sc d]
  by (simp add: start_def reset_files_def state_of_dict_state_dict)

lemma step_Outer:
  assumes "pc r = Outer" and "YEAR_START \<le> loc_y r"
  shows "pc (step sc remote r) = Fetch \<and> loc_y (step sc remote r) = loc_y r
         \<and> loc_offset (step sc remote r) = max (offset (state r)) 1"
  using assms by (simp add: step_def)

text \<open>
  C1, as the code has it. A step that changes the state or the output file leaves the
  loop at a save point, and the step after a save point writes the state to the checkpoint
  file; so wherever no save is pending after the first request, the checkpoint holds the
  state in memory and at most the page in flight is missing from it. In
  \<^verbatim>\<open>get_more_data.py\<close> (\<^verbatim>\<open>RESET = False\<close>), a process cut right after the save that
  follows an offset advance, or a year being closed with the new year not below
  \<^verbatim>\<open>YEAR_START\<close>, restarts into a run whose first request is at the persisted
  \<^verbatim>\<open>(year, offset)\<close>, the very request the interrupted run would have made next. In
  \<^verbatim>\<open>get_data.py\<close> (\<^verbatim>\<open>RESET = True\<close>) every start deletes both files and begins at
  \<^verbatim>\<open>(2024, 1)\<close>.
\<close>

theorem saves_follow_progress:
  "((state (step sc remote c) \<noteq> state c
       \<or> output_file (files (step sc remote c)) \<noteq> output_file (files c))
     \<longrightarrow> save_point (pc (step sc remote c)))
   \<and> (save_point (pc c)
     \<longrightarrow> files (step sc remote c) = save_checkpoint (state c) (files c)
         \<and> state (step sc remote c) = state c
         \<and> synced (step sc remote c))
   \<and> (start sc rd d = Some ini \<and> fetched (run sc remote n ini) \<noteq> []
        \<and> settled (pc (run sc remote n ini))
     \<longrightarrow> synced (run sc remote n ini))
   \<and> (start sc rd d = Some ini \<and> \<not> RESET sc \<and> run sc remote n ini = c \<and> pc c = SaveAdvance
     \<longrightarrow> checkpoint_file (files (step sc remote c)) = Some (Json (JObj (state_dict (state c))))
         \<and> pc (step sc remote c) = Fetch
         \<and> loc_y (step sc remote c) = year (state c)
         \<and> loc_offset (step sc remote c) = offset (state c)
         \<and> (\<exists>r. start sc rd' (files (step sc remote c)) = Some r
                \<and> state r = state c
                \<and> pc (step sc remote' r) = Fetch
                \<and> loc_y (step sc remote' r) = year (state c)
                \<and> loc_offset (step sc remote' r) = offset (state c)))
   \<and> (start sc rd d = Some ini \<and> \<not> RESET sc \<and> run sc remote n ini = c \<and> pc c = SaveExhausted
        \<and> YEAR_START \<le> year (state c)
     \<longrightarrow> checkpoint_file (files (step sc remote c)) = Some (Json (JObj (state_dict (state c))))
         \<and> pc (run sc remote 2 c) = Fetch
         \<and> loc_y (run sc remote 2 c) = year (state c)
         \<and> loc_offset (run sc remote 2 c) = offset (state c)
         \<and> (\<exists>r. start sc rd' (files (step sc remote c)) = Some r
                \<and> state r = state c
                \<and> pc (step sc remote' r) = Fetch
                \<and> loc_y (step sc remote' r) = year (state c)
                \<and> loc_offset (step sc remote' r) = offset (state c)))
   \<and> start GetData rd d
       = Some \<lparr>pc = Outer, loc_y = 2024, loc_offset = 1,
               state = \<lparr>year = 2024, offset = 1, written_header = False, total_saved = 0\<rparr>,
               files = \<lparr>checkpoint_file = None, output_file = None\<rparr>,
               existing_ids = {}, fetched = []\<rparr>"
proof (intro conjI impI)
  assume "state (step sc remote c) \<noteq> state c
       \<or> output_file (files (step sc remote c)) \<noteq> output_file (files c)"
  then show "save_point (pc (step sc remote c))"
    by (cases "pc c")
      (auto simp: step_def year_done_def save_checkpoint_def Let_def split: prod.splits if_splits)
next
  assume sp: "save_point (pc c)"
  then show "files (step sc remote c) = save_checkpoint (state c) (files c)"
    and "state (step sc remote c) = state c"
    and "synced (step sc remote c)"
    by (cases "pc c"; simp add: step_def synced_def save_checkpoint_def)+
next
  assume "start sc rd d = Some ini \<and> fetched (run sc remote n ini) \<noteq> []
        \<and> settled (pc (run sc remote n ini))"
  then show "synced (run sc remote n ini)"
    using loop_inv_run [OF loop_inv_start, of sc rd d ini remote n]
    by (simp add: loop_inv_def)
next
  assume h: "start sc rd d = Some ini \<and> \<not> RESET sc \<and> run sc remote n ini = c \<and> pc c = SaveAdvance"
  then have inv: "loop_inv sc c"
    using loop_inv_run [OF loop_inv_start, of sc rd d ini remote n] by simp
  from h have stp: "step sc remote c = c\<lparr>pc := Fetch, files := save_checkpoint (state c) (files c)\<rparr>"
    by (simp add: step_def)
  from h inv have pos: "loc_y c = year (state c)" "offset (state c) = loc_offset c"
      "1 \<le> loc_offset c" "YEAR_START \<le> year (state c)" "year (state c) \<le> YEAR_END sc"
    by (simp_all add: loop_inv_def)
  show "checkpoint_file (files (step sc remote c)) = Some (Json (JObj (state_dict (state c))))"
    and "pc (step sc remote c) = Fetch"
    and "loc_y (step sc remote c) = year (state c)"
    and "loc_offset (step sc remote c) = offset (state c)"
    using pos by (simp_all add: stp save_checkpoint_def)
  obtain r where r: "start sc rd' (files (step sc remote c)) = Some r" "pc r = Outer"
      "state r = state c" "loc_y r = year (state c)"
    using start_saved [of sc "state c" "files (step sc remote c)" rd'] h pos
    by (auto simp: stp save_checkpoint_def)
  show "\<exists>r. start sc rd' (files (step sc remote c)) = Some r
                \<and> state r = state c
                \<and> pc (step sc remote' r) = Fetch
                \<and> loc_y (step sc remote' r) = year (state c)
                \<and> loc_offset (step sc remote' r) = offset (state c)"
    using r pos step_Outer [of r sc remote'] by (intro exI [of _ r]) simp
next
  assume h: "start sc rd d = Some ini \<and> \<not> RESET sc \<and> run sc remote n ini = c \<and> pc c = SaveExhausted
        \<and> YEAR_START \<le> year (state c)"
  then have inv: "loop_inv sc c"
    using loop_inv_run [OF loop_inv_start, of sc rd d ini remote n] by simp
  from h have stp: "step sc remote c = c\<lparr>pc := Outer, files := save_checkpoint (state c) (files c)\<rparr>"
    by (simp add: step_def)
  from h inv have pos: "loc_y c = year (state c)" "offset (state c) = 1"
      "YEAR_START \<le> year (state c)" "year (state c) \<le> YEAR_END sc"
    by (simp_all add: loop_inv_def)
  show "checkpoint_file (files (step sc remote c)) = Some (Json (JObj (state_dict (state c))))"
    by (simp add: stp save_checkpoint_def)
  show "pc (run sc remote 2 c) = Fetch"
    and "loc_y (run sc remote 2 c) = year (state c)"
    and "loc_offset (run sc remote 2 c) = offset (state c)"
    using pos step_Outer [of "step sc remote c" sc remote] by (simp_all add: run2 stp)
  obtain r where r: "start sc rd' (files (step sc remote c)) = Some r" "pc r = Outer"
      "state r = state c" "loc_y r = year (state c)"
    using start_saved [of sc "state c" "files (step sc remote c)" rd'] h pos
    by (auto simp: stp save_checkpoint_def)
  show "\<exists>r. start sc rd' (files (step sc remote c)) = Some r
                \<and> state r = state c
                \<and> pc (step sc remote' r) = Fetch
                \<and> loc_y (step sc remote' r) = year (state c)
                \<and> loc_offset (step sc remote' r) = offset (state c)"
    using r pos step_Outer [of r sc remote'] by (intro exI [of _ r]) simp
next
  show "start GetData rd d
       = Some \<lparr>pc = Outer, loc_y = 2024, loc_offset = 1,
               state = \<lparr>year = 2024, offset = 1, written_header = False, total_saved = 0\<rparr>,
               files = \<lparr>checkpoint_file = None, output_file = None\<rparr>,
               existing_ids = {}, fetched = []\<rparr>"
    by (simp add: start_def reset_files_def load_checkpoint_def default_state_def
          state_of_dict_def)
qed

lemmas eval_defs = step_def year_done_def save_checkpoint_def merge_def append_chunk_more_def
  append_chunk_def DataFrame_def df_empty_def to_csv_def Let_def state_dict_def isin_def RPP_def
  YEAR_START_def

lemma start_fresh: "start (GetMoreData 2024) no_ids empty_disk = Some fresh_run"
  by (simp add: start_def reset_files_def load_checkpoint_def default_state_def
        state_of_dict_def empty_disk_def fresh_run_def load_existing_ids_def)

lemma start_crash: "start (GetMoreData 2024) no_ids crash_disk = Some resumed_run"
  by (simp add: start_def reset_files_def load_checkpoint_def state_of_dict_def crash_disk_def
        resumed_run_def load_existing_ids_def dict_get_def py_gt_def py_lt_def YEAR_START_def
        one_saved_def)

lemma run4:
  "run (GetMoreData 2024) one_award_remote 4 fresh_run
     = \<lparr>pc = Test 1, loc_y = 2024, loc_offset = 1, state = one_saved,
        files = crash_disk, existing_ids = {}, fetched = [(2024, 1)]\<rparr>"
  by (simp add: eval_nat_numeral fresh_run_def one_award_remote_def eval_defs award_no_id_def
        empty_disk_def crash_disk_def one_saved_def)

text \<open>
  C1 as the specification words it fails twice. The incremental run cut right
  after the save that follows the first merge (the request \<^verbatim>\<open>(2024, 1)\<close> made, its
  row written, the offset not yet advanced) restarts at \<^verbatim>\<open>(2024, 1)\<close> and appends
  the same row again. The backfill script never resumes: started on a checkpoint in the
  middle of 2023 it deletes both files and begins at \<^verbatim>\<open>(2024, 1)\<close>.
\<close>

theorem crash_after_merge_save_refetches:
  "start (GetMoreData 2024) no_ids empty_disk = Some fresh_run
   \<and> pc (run (GetMoreData 2024) one_award_remote 4 fresh_run) = Test 1
   \<and> files (run (GetMoreData 2024) one_award_remote 4 fresh_run) = crash_disk
   \<and> start (GetMoreData 2024) no_ids crash_disk = Some resumed_run
   \<and> fetched (run (GetMoreData 2024) one_award_remote 2 resumed_run) = [(2024, 1)]
   \<and> output_file (files (run (GetMoreData 2024) one_award_remote 3 resumed_run))
       = Some [Header [''agency'', ''title''], Row award_no_id, Row award_no_id]
   \<and> start GetData no_ids midyear_disk
       = Some \<lparr>pc = Outer, loc_y = 2024, loc_offset = 1,
               state = \<lparr>year = 2024, offset = 1, written_header = False, total_saved = 0\<rparr>,
               files = \<lparr>checkpoint_file = None, output_file = None\<rparr>,
               existing_ids = {}, fetched = []\<rparr>"
proof -
  have "fetched (run (GetMoreData 2024) one_award_remote 2 resumed_run) = [(2024, 1)]"
    by (simp add: eval_nat_numeral resumed_run_def one_award_remote_def eval_defs award_no_id_def
          one_saved_def)
  moreover have "output_file (files (run (GetMoreData 2024) one_award_remote 3 resumed_run))
       = Some [Header [''agency'', ''title''], Row award_no_id, Row award_no_id]"
    by (simp add: eval_nat_numeral resumed_run_def one_award_remote_def eval_defs
          crash_disk_def one_saved_def)
      (simp add: award_no_id_def)
  moreover have "start GetData no_ids midyear_disk
       = Some \<lparr>pc = Outer, loc_y = 2024, loc_offset = 1,
               state = \<lparr>year = 2024, offset = 1, written_header = False, total_saved = 0\<rparr>,
               files = \<lparr>checkpoint_file = None, output_file = None\<rparr>,
               existing_ids = {}, fetched = []\<rparr>"
    by (simp add: start_def reset_files_def load_checkpoint_def default_state_def
          state_of_dict_def)
  ultimately show ?thesis
    by (simp add: start_fresh start_crash run4)
qed

lemma run5_fresh:
  "run (GetMoreData 2024) one_award_remote 5 fresh_run
     = \<lparr>pc = SaveExhausted, loc_y = 2023, loc_offset = 1,
        state = \<lparr>year = 2023, offset = 1, written_header = True, total_saved = 1\<rparr>,
        files = crash_disk, existing_ids = {}, fetched = [(2024, 1)]\<rparr>"
proof -
  have "run (GetMoreData 2024) one_award_remote 5 fresh_run
      = step (GetMoreData 2024) one_award_remote
          (run (GetMoreData 2024) one_award_remote 4 fresh_run)"
    using run_add [of "GetMoreData 2024" one_award_remote 4 1 fresh_run] by simp
  then show ?thesis
    by (simp add: run4 step_def year_done_def RPP_def one_saved_def)
qed

lemma run5_full:
  "run (GetMoreData 2024) sample_remote 5 fresh_run
     = \<lparr>pc = SaveAdvance, loc_y = 2024, loc_offset = 26,
        state = \<lparr>year = 2024, offset = 26, written_header = True, total_saved = 25\<rparr>,
        files =
          \<lparr>checkpoint_file =
             Some (Json (JObj [(''year'', JInt 2024), (''offset'', JInt 1),
                               (''written_header'', JBool True), (''total_saved'', JInt 25)])),
           output_file = Some (Header [''agency'', ''title''] # replicate 25 (Row award_no_id))\<rparr>,
        existing_ids = {}, fetched = [(2024, 1)]\<rparr>"
  by code_simp

theorem saves_follow_progress_witness:
  "start (GetMoreData 2024) no_ids empty_disk = Some fresh_run
   \<and> pc (run (GetMoreData 2024) one_award_remote 5 fresh_run) = SaveExhausted
   \<and> checkpoint_file
        (files (step (GetMoreData 2024) one_award_remote
                 (run (GetMoreData 2024) one_award_remote 5 fresh_run)))
       = Some (Json (JObj [(''year'', JInt 2023), (''offset'', JInt 1),
                           (''written_header'', JBool True), (''total_saved'', JInt 1)]))
   \<and> loc_y (run (GetMoreData 2024) one_award_remote 2
              (run (GetMoreData 2024) one_award_remote 5 fresh_run)) = 2023
   \<and> loc_offset (run (GetMoreData 2024) one_award_remote 2
                   (run (GetMoreData 2024) one_award_remote 5 fresh_run)) = 1
   \<and> (\<exists>r. start (GetMoreData 2024) no_ids
              (files (step (GetMoreData 2024) one_award_remote
                       (run (GetMoreData 2024) one_award_remote 5 fresh_run))) = Some r
          \<and> pc (step (GetMoreData 2024) one_award_remote r) = Fetch
          \<and> loc_y (step (GetMoreData 2024) one_award_remote r) = 2023
          \<and> loc_offset (step (GetMoreData 2024) one_award_remote r) = 1)
   \<and> pc (run (GetMoreData 2024) sample_remote 5 fresh_run) = SaveAdvance
   \<and> checkpoint_file
        (files (step (GetMoreData 2024) sample_remote
                 (run (GetMoreData 2024) sample_remote 5 fresh_run)))
       = Some (Json (JObj [(''year'', JInt 2024), (''offset'', JInt 26),
                           (''written_header'', JBool True), (''total_saved'', JInt 25)]))
   \<and> loc_y (step (GetMoreData 2024) sample_remote
              (run (GetMoreData 2024) sample_remote 5 fresh_run)) = 2024
   \<and> loc_offset (step (GetMoreData 2024) sample_remote
                   (run (GetMoreData 2024) sample_remote 5 fresh_run)) = 26
   \<and> (\<exists>r. start (GetMoreData 2024) no_ids
              (files (step (GetMoreData 2024) sample_remote
                       (run (GetMoreData 2024) sample_remote 5 fresh_run))) = Some r
          \<and> pc (step (GetMoreData 2024) sample_remote r) = Fetch
          \<and> loc_y (step (GetMoreData 2024) sample_remote r) = 2024
          \<and> loc_offset (step (GetMoreData 2024) sample_remote r) = 26)
   \<and> pc (run (GetMoreData 2024) one_award_remote 4 fresh_run) = Test 1
   \<and> synced (run (GetMoreData 2024) one_award_remote 4 fresh_run)"
proof -
  let ?sc = "GetMoreData 2024"
  let ?c = "run ?sc one_award_remote 5 fresh_run"
  let ?a = "run ?sc sample_remote 5 fresh_run"
  let ?t = "run ?sc one_award_remote 4 fresh_run"
  have st: "state ?c = \<lparr>year = 2023, offset = 1, written_header = True, total_saved = 1\<rparr>"
    and pc: "pc ?c = SaveExhausted"
    by (simp_all add: run5_fresh)
  have sta: "state ?a = \<lparr>year = 2024, offset = 26, written_header = True, total_saved = 25\<rparr>"
    and pca: "pc ?a = SaveAdvance"
    by (simp_all add: run5_full)
  have hyp: "start ?sc no_ids empty_disk = Some fresh_run \<and> \<not> RESET ?sc
      \<and> run ?sc one_award_remote 5 fresh_run = ?c
      \<and> pc ?c = SaveExhausted \<and> YEAR_START \<le> year (state ?c)"
    by (simp add: start_fresh pc st YEAR_START_def)
  have hypa: "start ?sc no_ids empty_disk = Some fresh_run \<and> \<not> RESET ?sc
      \<and> run ?sc sample_remote 5 fresh_run = ?a \<and> pc ?a = SaveAdvance"
    by (simp add: start_fresh pca)
  have hypt: "start ?sc no_ids empty_disk = Some fresh_run \<and> fetched ?t \<noteq> []
      \<and> settled (pc ?t)"
    by (simp add: start_fresh run4)
  note exhausted = saves_follow_progress
            [where sc = ?sc and rd = no_ids and d = empty_disk and ini = fresh_run
               and remote = one_award_remote and n = 5 and c = ?c and rd' = no_ids
               and remote' = one_award_remote,
             THEN conjunct2, THEN conjunct2, THEN conjunct2, THEN conjunct2, THEN conjunct1]
  note advanced = saves_follow_progress
            [where sc = ?sc and rd = no_ids and d = empty_disk and ini = fresh_run
               and remote = sample_remote and n = 5 and c = ?a and rd' = no_ids
               and remote' = sample_remote,
             THEN conjunct2, THEN conjunct2, THEN conjunct2, THEN conjunct1]
  note in_step = saves_follow_progress
            [where sc = ?sc and rd = no_ids and d = empty_disk and ini = fresh_run
               and remote = one_award_remote and n = 4,
             THEN conjunct2, THEN conjunct2, THEN conjunct1]
  have e: "checkpoint_file (files (step ?sc one_award_remote ?c))
        = Some (Json (JObj (state_dict (state ?c))))
      \<and> pc (run ?sc one_award_remote 2 ?c) = Fetch
      \<and> loc_y (run ?sc one_award_remote 2 ?c) = year (state ?c)
      \<and> loc_offset (run ?sc one_award_remote 2 ?c) = offset (state ?c)
      \<and> (\<exists>r. start ?sc no_ids (files (step ?sc one_award_remote ?c)) = Some r
             \<and> state r = state ?c
             \<and> pc (step ?sc one_award_remote r) = Fetch
             \<and> loc_y (step ?sc one_award_remote r) = year (state ?c)
             \<and> loc_offset (step ?sc one_award_remote r) = offset (state ?c))"
    by (rule mp [OF exhausted hyp])
  have a: "checkpoint_file (files (step ?sc sample_remote ?a))
        = Some (Json (JObj (state_dict (state ?a))))
      \<and> pc (step ?sc sample_remote ?a) = Fetch
      \<and> loc_y (step ?sc sample_remote ?a) = year (state ?a)
      \<and> loc_offset (step ?sc sample_remote ?a) = offset (state ?a)
      \<and> (\<exists>r. start ?sc no_ids (files (step ?sc sample_remote ?a)) = Some r
             \<and> state r = state ?a
             \<and> pc (step ?sc sample_remote r) = Fetch
             \<and> loc_y (step ?sc sample_remote r) = year (state ?a)
             \<and> loc_offset (step ?sc sample_remote r) = offset (state ?a))"
    by (rule mp [OF advanced hypa])
  have t: "synced ?t"
    by (rule mp [OF in_step hypt])
  from e a t show ?thesis
    unfolding st sta by (auto simp: state_dict_def start_fresh pc pca run4)
qed

subsection \<open>The header\<close>

lemma headers_append:
  "headers (Some ((case out of None \<Rightarrow> [] | Some ls \<Rightarrow> ls) @ hs @ map Row rs))
     = headers out + headers (Some hs)"
  by (cases out) (simp_all add: headers_def filter_map comp_def)

lemma merge_header:
  "headers (snd (merge sc awards st ids out))
     = headers out
       + (if written_header (fst (merge sc awards st ids out)) \<and> \<not> written_header st
          then 1 else 0)
   \<and> (written_header st \<longrightarrow> written_header (fst (merge sc awards st ids out)))
   \<and> (snd (merge sc awards st ids out) \<noteq> out
        \<longrightarrow> written_header (fst (merge sc awards st ids out)))"
  by (cases sc)
    (auto simp: merge_def append_chunk_def append_chunk_more_def Let_def to_csv_def
       headers_def split: option.splits)

lemma merge_state_any_file:
  "fst (merge sc awards st ids out) = fst (merge sc awards st ids None)"
  by (cases sc) (simp_all add: merge_def append_chunk_def append_chunk_more_def Let_def)

lemma step_header:
  "headers (output_file (files (step sc remote c)))
     = headers (output_file (files c))
       + (if written_header (state (step sc remote c)) \<and> \<not> written_header (state c)
          then 1 else 0)
   \<and> (written_header (state c) \<longrightarrow> written_header (state (step sc remote c)))"
proof (cases "pc c")
  case (Append awards)
  obtain st out where m: "merge sc awards (state c) (existing_ids c) (output_file (files c))
      = (st, out)"
    by (cases "merge sc awards (state c) (existing_ids c) (output_file (files c))")
  from Append m show ?thesis
    using merge_header [of sc awards "state c" "existing_ids c" "output_file (files c)"]
    by (simp add: step_def)
qed (simp_all add: step_def year_done_def save_checkpoint_def Let_def)

lemma header_count_compose:
  fixes h0 h1 hn :: nat
  assumes "hn = h1 + (if wn \<and> \<not> w1 then 1 else 0)"
    and "h1 = h0 + (if w1 \<and> \<not> w0 then 1 else 0)"
    and "w1 \<longrightarrow> wn" and "w0 \<longrightarrow> w1"
  shows "hn = h0 + (if wn \<and> \<not> w0 then 1 else 0) \<and> (w0 \<longrightarrow> wn)"
  using assms by (cases w0; cases w1; cases wn; simp)

lemma run_header:
  "headers (output_file (files (run sc remote n c)))
     = headers (output_file (files c))
       + (if written_header (state (run sc remote n c)) \<and> \<not> written_header (state c)
          then 1 else 0)
   \<and> (written_header (state c) \<longrightarrow> written_header (state (run sc remote n c)))"
proof (induction n arbitrary: c)
  case 0
  then show ?case by simp
next
  case (Suc n)
  let ?c1 = "step sc remote c" and ?cn = "run sc remote n (step sc remote c)"
  have a: "headers (output_file (files ?cn))
      = headers (output_file (files ?c1))
        + (if written_header (state ?cn) \<and> \<not> written_header (state ?c1) then 1 else 0)"
    and b: "written_header (state ?c1) \<longrightarrow> written_header (state ?cn)"
    by (rule conjunct1 [OF Suc.IH [of ?c1]]) (rule conjunct2 [OF Suc.IH [of ?c1]])
  have c: "headers (output_file (files ?c1))
      = headers (output_file (files c))
        + (if written_header (state ?c1) \<and> \<not> written_header (state c) then 1 else 0)"
    and d: "written_header (state c) \<longrightarrow> written_header (state ?c1)"
    by (rule conjunct1 [OF step_header [of sc remote c]])
      (rule conjunct2 [OF step_header [of sc remote c]])
  show ?case
    unfolding run.simps by (rule header_count_compose [OF a c b d])
qed

text \<open>
  C8, as the code has it. One call of the row merger writes one header when it appends
  rows while \<^verbatim>\<open>written_header\<close> is false, and none otherwise; when it appends it leaves
  \<^verbatim>\<open>written_header\<close> true, and it never resets it. The state it returns does not depend
  on what the output file holds. Over any stretch of a run the number of header lines
  grows by one exactly when \<^verbatim>\<open>written_header\<close> went from false to true, and not at
  all when it was true at the beginning: at most one header per process, none in a run
  that starts with \<^verbatim>\<open>written_header\<close> true.
\<close>

theorem header_written_at_most_once:
  "headers (snd (merge sc awards st ids out))
     = headers out
       + (if written_header (fst (merge sc awards st ids out)) \<and> \<not> written_header st
          then 1 else 0)
   \<and> (written_header st \<longrightarrow> written_header (fst (merge sc awards st ids out)))
   \<and> (snd (merge sc awards st ids out) \<noteq> out
        \<longrightarrow> written_header (fst (merge sc awards st ids out)))
   \<and> fst (merge sc awards st ids out) = fst (merge sc awards st ids None)
   \<and> headers (output_file (files (run sc remote n c)))
     = headers (output_file (files c))
       + (if written_header (state (run sc remote n c)) \<and> \<not> written_header (state c)
          then 1 else 0)
   \<and> (written_header (state c) \<longrightarrow> written_header (state (run sc remote n c)))"
  using merge_header [of sc awards st ids out] run_header [of sc remote n c]
    merge_state_any_file [of sc awards st ids out]
  by (elim conjE) (intro conjI; assumption)

theorem header_written_at_most_once_witness:
  "headers (output_file (files (run (GetMoreData 2024) one_award_remote 4 fresh_run))) = 1
   \<and> written_header (state (run (GetMoreData 2024) one_award_remote 4 fresh_run))
   \<and> headers (snd (merge (GetMoreData 2024) [award_no_id] one_saved {}
                       (Some [Header [''agency'', ''title''], Row award_no_id]))) = 1
   \<and> written_header (fst (merge (GetMoreData 2024) [award_no_id] one_saved {}
                              (Some [Header [''agency'', ''title''], Row award_no_id])))"
proof -
  note inst = header_written_at_most_once
          [where sc = "GetMoreData 2024" and awards = "[award_no_id]" and st = one_saved
             and ids = "{}" and out = "Some [Header [''agency'', ''title''], Row award_no_id]"
             and remote = one_award_remote and n = 4 and c = fresh_run]
  have h0: "headers (output_file (files fresh_run)) = 0"
      "\<not> written_header (state fresh_run)"
    by (simp_all add: fresh_run_def empty_disk_def headers_def)
  have w4: "written_header (state (run (GetMoreData 2024) one_award_remote 4 fresh_run))"
    by (simp add: run4 one_saved_def)
  have h1: "headers (Some [Header [''agency'', ''title''], Row award_no_id]) = 1"
    by (simp add: headers_def)
  have w1: "written_header one_saved"
    by (simp add: one_saved_def)
  show ?thesis
    using inst [THEN conjunct1] inst [THEN conjunct2, THEN conjunct1]
      inst [THEN conjunct2, THEN conjunct2, THEN conjunct2, THEN conjunct2, THEN conjunct1]
      h0 w4 h1 w1
    by simp
qed

lemma start_continued:
  "start (GetMoreData 2024) no_ids existing_output_disk = Some continued_run"
  by (simp add: start_def reset_files_def load_checkpoint_def default_state_def state_of_dict_def
        existing_output_disk_def continued_run_def load_existing_ids_def)

lemma run22_continued:
  "run (GetMoreData 2024) one_award_remote 22 continued_run
     = \<lparr>pc = Finished, loc_y = 2018, loc_offset = 1,
        state = \<lparr>year = 2018, offset = 1, written_header = True, total_saved = 1\<rparr>,
        files = \<lparr>checkpoint_file =
                   Some (Json (JObj [(''year'', JInt 2018), (''offset'', JInt 1),
                                     (''written_header'', JBool True), (''total_saved'', JInt 1)])),
                 output_file = Some [Header [''agency'', ''title''], Row award_no_id,
                                     Row award_no_id]\<rparr>,
        existing_ids = {},
        fetched = [(2024, 1), (2023, 1), (2022, 1), (2021, 1), (2020, 1), (2019, 1)]\<rparr>"
  by code_simp

text \<open>
  C8 as the specification words it fails for a run that starts with
  \<^verbatim>\<open>written_header\<close> true. The incremental script started without a checkpoint on an
  output file that exists takes \<^verbatim>\<open>os.path.exists(OUTPUT_FILE)\<close> for the flag: the whole
  run appends a row and writes no header, and the flag never goes from false to true.
\<close>

theorem continued_run_writes_no_header:
  "start (GetMoreData 2024) no_ids existing_output_disk = Some continued_run
   \<and> written_header (state continued_run)
   \<and> pc (run (GetMoreData 2024) one_award_remote 22 continued_run) = Finished
   \<and> output_file (files continued_run)
       = Some [Header [''agency'', ''title''], Row award_no_id]
   \<and> output_file (files (run (GetMoreData 2024) one_award_remote 22 continued_run))
       = Some [Header [''agency'', ''title''], Row award_no_id, Row award_no_id]
   \<and> headers (output_file (files (run (GetMoreData 2024) one_award_remote 22 continued_run)))
       = headers (output_file (files continued_run))"
  by (simp add: start_continued run22_continued)
    (simp add: continued_run_def existing_output_disk_def headers_def)

subsection \<open>Running the incremental script twice\<close>






































text \<open>
  The other provisos matter as well. A first run that resumes at the last year completes
  without requesting the pages of 2024, and the second run appends them. On an output
  file whose header has no \<^verbatim>\<open>id\<close> column no identifier is ever loaded, and the second
  run appends both rows again.
\<close>

lemma resumed_first_run_is_not_enough:
  "pc (run (GetMoreData 2024) two_award_remote 4
         (the (start (GetMoreData 2024) read_back late_disk))) = Finished
   \<and> total_saved (state (run (GetMoreData 2024) two_award_remote 4
                            (the (start (GetMoreData 2024) read_back late_disk)))) = 0
   \<and> total_saved
        (state (run (GetMoreData 2024) two_award_remote 22
                  (the (start (GetMoreData 2024) read_back
                          (files (run (GetMoreData 2024) two_award_remote 4
                                    (the (start (GetMoreData 2024) read_back late_disk)))))))) = 2"
  by code_simp

lemma header_without_id_is_not_enough:
  "pc (run (GetMoreData 2024) two_award_remote 22
         (the (start (GetMoreData 2024) read_back titles_disk))) = Finished
   \<and> total_saved (state (run (GetMoreData 2024) two_award_remote 22
                            (the (start (GetMoreData 2024) read_back titles_disk)))) = 2
   \<and> total_saved
        (state (run (GetMoreData 2024) two_award_remote 22
                  (the (start (GetMoreData 2024) read_back
                          (files (run (GetMoreData 2024) two_award_remote 22
                                    (the (start (GetMoreData 2024) read_back titles_disk)))))))) = 4"
  by code_simp

end
